theory Spec2Isabelle
  imports Complex_Main
begin

section \<open>Strings and numbers\<close>

text \<open>
  JavaScript strings are modelled as \<^typ>\<open>string\<close>; a \<^typ>\<open>char\<close> stands for a UTF-16 code
  unit below 256. Integral \<open>number\<close>s are \<^typ>\<open>int\<close>, array lengths, indices and the \<open>id\<close>
  fields assigned from them are \<^typ>\<open>nat\<close>, and the few fractional numbers are exact
  \<^typ>\<open>real\<close>s (the rounding of IEEE doubles is not modelled, and no theorem below depends
  on a fractional value).
\<close>

definition newline :: string where
  "newline = [CHR 0x0A]"

definition digit_char :: "nat \<Rightarrow> char" where
  "digit_char n = ''0123456789'' ! n"

text \<open>\<open>String(n)\<close> and the \<open>${n}\<close> of a template literal, for a non-negative integer.\<close>

fun decimal :: "nat \<Rightarrow> string" where
  "decimal n =
     (if n < 10 then [digit_char n]
      else decimal (n div 10) @ [digit_char (n mod 10)])"

declare decimal.simps [simp del]

text \<open>\<open>s.padStart(n, c)\<close> for a one-character filler \<open>c\<close>.\<close>

definition padStart :: "nat \<Rightarrow> char \<Rightarrow> string \<Rightarrow> string" where
  "padStart n c s = replicate (n - length s) c @ s"

section \<open>Data model (utils/types.ts)\<close>

text \<open>
  The records below have the fields and the field types of the interfaces in types.ts.
  A collection read from disk is \<open>JSON.parse\<close>d and cast to its type unchecked, and the test
  the listings make on \<open>name\<close> is not a test for a string; so the \<open>name\<close> of an entity record
  is the value the parsed object may hold there: a string, nothing at all (\<open>undefined\<close>), or
  a value that is not a string, kept as the text \<open>String(v)\<close> gives for it. The other fields,
  which the tools only copy or overwrite, stay at their declared types, and an entry of a
  collection is \<open>null\<close> or an object (an entry that is neither, a number say, has no \<open>name\<close>
  and is to the listings what an object without one is).
\<close>

datatype js_value = Undefined | NonString string | Str string

text \<open>\<open>String(v)\<close>, which is also what a template literal puts for \<open>${v}\<close>.\<close>

fun js_String :: "js_value \<Rightarrow> string" where
  "js_String Undefined = ''undefined''"
| "js_String (NonString t) = t"
| "js_String (Str s) = s"

text \<open>The two tests on a name that the properties below speak of.\<close>

fun is_string :: "js_value \<Rightarrow> bool" where
  "is_string (Str s) = True"
| "is_string v = False"

fun nonempty_string :: "js_value \<Rightarrow> bool" where
  "nonempty_string (Str s) = (s \<noteq> [])"
| "nonempty_string v = False"

record RPGEffect =
  code :: int
  dataId :: int
  value1 :: real
  value2 :: int

record RPGDamage =
  type :: int
  elementId :: int
  formula :: string
  variance :: int
  critical :: bool

record RPGTrait =
  code :: int
  dataId :: int
  "value" :: real

record RPGItem =
  id :: nat
  name :: js_value
  description :: string
  iconIndex :: int
  price :: int
  itypeId :: int
  consumable :: bool
  scope :: int
  occasion :: int
  animationId :: int
  damage :: RPGDamage
  effects :: "RPGEffect list"
  hitType :: int
  repeats :: int
  speed :: int
  successRate :: int
  tpGain :: int
  "note" :: string

record RPGActor =
  id :: nat
  name :: js_value
  nickname :: string
  classId :: int
  initialLevel :: int
  maxLevel :: int
  characterName :: string
  characterIndex :: int
  faceName :: string
  faceIndex :: int
  battlerName :: string
  equips :: "int list"
  profile :: string
  "note" :: string

record Learning =
  level :: int
  skillId :: int
  "note" :: string

record RPGClass =
  id :: nat
  name :: js_value
  expParams :: "int list"
  params :: "int list list"
  learnings :: "Learning list"
  traits :: "RPGTrait list"
  "note" :: string

record RPGSkill =
  id :: nat
  name :: js_value
  description :: string
  iconIndex :: int
  stypeId :: int
  scope :: int
  occasion :: int
  mpCost :: int
  tpCost :: int
  damage :: RPGDamage
  effects :: "RPGEffect list"
  requiredWtypeId1 :: int
  requiredWtypeId2 :: int
  speed :: int
  successRate :: int
  repeats :: int
  tpGain :: int
  hitType :: int
  animationId :: int
  message1 :: string
  message2 :: string
  "note" :: string

record RPGWeapon =
  id :: nat
  name :: js_value
  description :: string
  iconIndex :: int
  price :: int
  wtypeId :: int
  etypeId :: int
  params :: "int list"
  traits :: "RPGTrait list"
  animationId :: int
  "note" :: string

record RPGArmor =
  id :: nat
  name :: js_value
  description :: string
  iconIndex :: int
  price :: int
  atypeId :: int
  etypeId :: int
  params :: "int list"
  traits :: "RPGTrait list"
  "note" :: string

record DropItem =
  kind :: int
  dataId :: int
  denominator :: int

record EnemyAction =
  conditionParam1 :: int
  conditionParam2 :: int
  conditionType :: int
  rating :: int
  skillId :: int

record RPGEnemy =
  id :: nat
  name :: js_value
  battlerName :: string
  battlerHue :: int
  params :: "int list"
  exp :: int
  gold :: int
  dropItems :: "DropItem list"
  actions :: "EnemyAction list"
  traits :: "RPGTrait list"
  "note" :: string

record RPGState =
  id :: nat
  name :: js_value
  iconIndex :: int
  restriction :: int
  priority :: int
  motion :: int
  overlay :: int
  removeAtBattleEnd :: bool
  removeByRestriction :: bool
  autoRemovalTiming :: int
  minTurns :: int
  maxTurns :: int
  removeByDamage :: bool
  chanceByDamage :: int
  removeByWalking :: bool
  stepsToRemove :: int
  message1 :: string
  message2 :: string
  message3 :: string
  message4 :: string
  traits :: "RPGTrait list"
  "note" :: string

record RPGMapInfo =
  id :: nat
  name :: string
  parentId :: int
  expanded :: bool
  scrollX :: int
  scrollY :: int
  order :: int

record Audio =
  name :: string
  pan :: int
  pitch :: int
  volume :: int

record Encounter =
  regionSet :: "int list"
  troopId :: int
  weight :: int

text \<open>
  The event list of a map body is created empty and never read by the tools, so an event
  (\<open>RPGEvent\<close>, with its pages and commands) is kept as the text of its JSON.
\<close>

datatype RPGEvent = RPGEvent string

record RPGMap =
  displayName :: string
  tilesetId :: int
  width :: nat
  height :: nat
  scrollType :: int
  specifyBattleback :: bool
  battleback1Name :: string
  battleback2Name :: string
  autoplayBgm :: bool
  bgm :: Audio
  autoplayBgs :: bool
  bgs :: Audio
  disableDashing :: bool
  encounterList :: "Encounter list"
  encounterStep :: int
  parallaxName :: string
  parallaxLoopX :: bool
  parallaxLoopY :: bool
  parallaxSx :: int
  parallaxSy :: int
  parallaxShow :: bool
  data :: "int list"
  events :: "RPGEvent option list"
  "note" :: string

record RPGSystem =
  gameTitle :: string
  versionId :: int
  "locale" :: string
  partyMembers :: "int list"
  currencyUnit :: string
  startMapId :: int
  startX :: int
  startY :: int

text \<open>An entry of the plugin registry.\<close>

record PluginConfig =
  name :: string
  status :: bool
  description :: string
  parameters :: "(string \<times> string) list"

definition ItemType_Regular :: int where "ItemType_Regular = 1"
definition ItemType_KeyItem :: int where "ItemType_KeyItem = 2"
definition Scope_OneEnemy :: int where "Scope_OneEnemy = 1"
definition Scope_OneAlly :: int where "Scope_OneAlly = 7"
definition Occasion_Always :: int where "Occasion_Always = 0"
definition Occasion_Battle :: int where "Occasion_Battle = 1"
definition EffectCode_RecoverHP :: int where "EffectCode_RecoverHP = 11"
definition EffectCode_RecoverMP :: int where "EffectCode_RecoverMP = 12"
definition EffectCode_AddState :: int where "EffectCode_AddState = 21"
definition DamageType_None :: int where "DamageType_None = 0"
definition DamageType_HPDamage :: int where "DamageType_HPDamage = 1"
definition ScrollType_NoLoop :: int where "ScrollType_NoLoop = 0"

section \<open>Files on disk\<close>

text \<open>
  A file that holds JSON is represented by the document it parses to, typed as the tool
  that reads it declares it (\<open>readJson<(RPGItem | null)[]>\<close> and so on); \<open>null\<close> is
  \<^const>\<open>None\<close>. The four collections that only \<open>set_database_limit\<close> touches, as \<open>unknown[]\<close>
  (animations, tilesets, troops, common events), keep each record as the text of its JSON.
  The one field that is not at its declared type is the \<open>name\<close> of an entity record (see
  above). Any other file content is text, which \<open>JSON.parse\<close> rejects: \<open>Text\<close> for a plugin
  script, and \<open>Script front entries rest\<close> for a script in which the pattern of the plugin
  registry, \<open>/\$plugins\s*=\s*(\[[\s\S]*\]);?/\<close>, finds an array literal that parses as JSON:
  \<open>front\<close> is the text before the literal, \<open>entries\<close> the array it parses to and \<open>rest\<close> the
  text after it. A script in which the pattern finds nothing, or finds what \<open>JSON.parse\<close>
  rejects, is a \<open>Text\<close>.
\<close>

datatype payload = Payload string

datatype json_doc =
    ItemsDoc "RPGItem option list"
  | WeaponsDoc "RPGWeapon option list"
  | ArmorsDoc "RPGArmor option list"
  | SkillsDoc "RPGSkill option list"
  | ActorsDoc "RPGActor option list"
  | ClassesDoc "RPGClass option list"
  | EnemiesDoc "RPGEnemy option list"
  | StatesDoc "RPGState option list"
  | UnknownsDoc "payload option list"
  | MapInfosDoc "RPGMapInfo option list"
  | MapDoc RPGMap
  | SystemDoc RPGSystem

datatype file_content =
    Json json_doc
  | Text string
  | Script string "PluginConfig list" string

text \<open>
  What a file operation can throw: the file is missing, the path may not be written, the
  content is not JSON, or the document is not of the shape the caller's type parameter
  declares (the cast is unchecked in the source; its types rule this case out).
  \<open>ReadFailure\<close> and \<open>WriteFailure\<close> are the two failures the writer reports.
\<close>

datatype error =
    ENOENT
  | EACCES
  | SyntaxError
  | TypeMismatch
  | ReadFailure error
  | WriteFailure error

text \<open>
  The disk: the content of every existing file by absolute path, and the paths the process
  may not write (a write or copy to one of them fails and changes nothing). Directories
  are not modelled, so \<open>fs.mkdir(..., {recursive: true})\<close> is a no-op.
\<close>

record filesystem =
  files :: "string \<rightharpoonup> file_content"
  denied :: "string set"

section \<open>FileHandler (utils/fileHandler.ts)\<close>

record FileHandler =
  projectPath :: string
  enginePath :: "string option"

text \<open>
  \<open>path.isAbsolute\<close> and \<open>path.join\<close> for POSIX paths; the normalisation \<open>path.join\<close> does
  of \<open>..\<close>, \<open>.\<close> and doubled separators is left out.
\<close>

definition path_isAbsolute :: "string \<Rightarrow> bool" where
  "path_isAbsolute p = (case p of [] \<Rightarrow> False | c # _ \<Rightarrow> c = CHR ''/'')"

definition path_join :: "string \<Rightarrow> string \<Rightarrow> string" where
  "path_join a b = a @ ''/'' @ b"

definition resolvePath :: "FileHandler \<Rightarrow> string \<Rightarrow> string" where
  "resolvePath fh filePath =
     (if path_isAbsolute filePath then filePath
      else path_join (projectPath fh) filePath)"

definition readJson :: "FileHandler \<Rightarrow> string \<Rightarrow> filesystem \<Rightarrow> error + json_doc" where
  "readJson fh filePath fs =
     (case files fs (resolvePath fh filePath) of
        None \<Rightarrow> Inl ENOENT
      | Some (Text s) \<Rightarrow> Inl SyntaxError
      | Some (Script front entries rest) \<Rightarrow> Inl SyntaxError
      | Some (Json d) \<Rightarrow> Inr d)"

definition writeJson ::
  "FileHandler \<Rightarrow> string \<Rightarrow> json_doc \<Rightarrow> filesystem \<Rightarrow> (error + unit) \<times> filesystem" where
  "writeJson fh filePath d fs =
     (let fullPath = resolvePath fh filePath in
      if fullPath \<in> denied fs then (Inl EACCES, fs)
      else (Inr (), fs\<lparr>files := (files fs)(fullPath \<mapsto> Json d)\<rparr>))"


definition exists :: "FileHandler \<Rightarrow> string \<Rightarrow> filesystem \<Rightarrow> bool" where
  "exists fh filePath fs = (files fs (resolvePath fh filePath) \<noteq> None)"

definition backup ::
  "FileHandler \<Rightarrow> string \<Rightarrow> filesystem \<Rightarrow> (error + string) \<times> filesystem" where
  "backup fh filePath fs =
     (let fullPath = resolvePath fh filePath;
          backupPath = fullPath @ ''.bak''
      in case files fs fullPath of
           None \<Rightarrow> (Inl ENOENT, fs)
         | Some c \<Rightarrow>
             if backupPath \<in> denied fs then (Inl EACCES, fs)
             else (Inr backupPath, fs\<lparr>files := (files fs)(backupPath \<mapsto> c)\<rparr>))"

section \<open>SafeWriter\<close>

text \<open>
  Modelled from the spec: \<open>SafeWriter\<close> (\<open>utils/safeWriter.ts\<close>) is imported by every tool but
  is not among the sources. Its atomic write follows section 4.3: if the target exists,
  copy it to the sibling \<open>.bak\<close> path first and abort with a \<open>WriteFailure\<close>, the target
  untouched, when the copy fails; then write the new content. A target that does not exist
  yet is written without a backup.
\<close>

definition atomicWrite ::
  "FileHandler \<Rightarrow> string \<Rightarrow> json_doc \<Rightarrow> filesystem \<Rightarrow> (error + unit) \<times> filesystem" where
  "atomicWrite fh filePath d fs =
     (if exists fh filePath fs then
        (case backup fh filePath fs of
           (Inl e, fs1) \<Rightarrow> (Inl (WriteFailure e), fs1)
         | (Inr b, fs1) \<Rightarrow>
             (case writeJson fh filePath d fs1 of
                (Inl e, fs2) \<Rightarrow> (Inl (WriteFailure e), fs2)
              | (Inr u, fs2) \<Rightarrow> (Inr (), fs2)))
      else
        (case writeJson fh filePath d fs of
           (Inl e, fs2) \<Rightarrow> (Inl (WriteFailure e), fs2)
         | (Inr u, fs2) \<Rightarrow> (Inr (), fs2)))"

text \<open>The system file, whose \<open>versionId\<close> is the version counter (\<open>RPGSystem\<close> in types.ts).\<close>

definition systemFile :: string where
  "systemFile = ''data/System.json''"

text \<open>
  Modelled from the spec: the version bump of \<open>SafeWriter\<close>, section 4.4: a read-modify-write
  of the version counter in the system file, one step up, itself written as every overwrite
  is (sections 4.2 and 4.5).
\<close>

definition bumpVersion :: "FileHandler \<Rightarrow> filesystem \<Rightarrow> (error + unit) \<times> filesystem" where
  "bumpVersion fh fs =
     (case readJson fh systemFile fs of
        Inl e \<Rightarrow> (Inl (ReadFailure e), fs)
      | Inr (SystemDoc s) \<Rightarrow>
          atomicWrite fh systemFile (SystemDoc (s\<lparr>versionId := versionId s + 1\<rparr>)) fs
      | Inr _ \<Rightarrow> (Inl (ReadFailure TypeMismatch), fs))"

text \<open>
  Modelled from the spec: \<open>SafeWriter.writeToDatabase(filename, data)\<close>, the write of a
  collection file under \<open>data/\<close> (sections 2 and 4.4): the atomic write first, and the version
  bump only after it has succeeded.
\<close>

definition writeToDatabase ::
  "FileHandler \<Rightarrow> string \<Rightarrow> json_doc \<Rightarrow> filesystem \<Rightarrow> (error + unit) \<times> filesystem" where
  "writeToDatabase fh filename d fs =
     (case atomicWrite fh (''data/'' @ filename) d fs of
        (Inl e, fs1) \<Rightarrow> (Inl e, fs1)
      | (Inr u, fs1) \<Rightarrow> bumpVersion fh fs1)"


section \<open>Tool results\<close>

text \<open>
  What a tool hands back: one text and the failure flag (absent, so false, on success).
  The text of a listing is \<open>JSON.stringify(v, null, 2)\<close>; it is kept as the value \<open>v\<close>.
\<close>

datatype 'a tool_content = Message string | Listing 'a

record 'a tool_result =
  content :: "'a tool_content"
  isError :: bool

definition dquote :: string where
  "dquote = [CHR 0x22]"

definition decimal_int :: "int \<Rightarrow> string" where
  "decimal_int i = (if 0 \<le> i then decimal (nat i) else CHR ''-'' # decimal (nat (- i)))"

text \<open>The text of a thrown error, shortened to its name.\<close>

fun error_text :: "error \<Rightarrow> string" where
  "error_text ENOENT = ''Error: ENOENT: no such file or directory''"
| "error_text EACCES = ''Error: EACCES: permission denied''"
| "error_text SyntaxError = ''SyntaxError: Unexpected token''"
| "error_text TypeMismatch = ''TypeError''"
| "error_text (ReadFailure e) = error_text e"
| "error_text (WriteFailure e) = error_text e"

text \<open>The \<open>catch\<close> branch every handler ends with.\<close>

definition caught :: "error \<Rightarrow> 'a tool_result" where
  "caught e = \<lparr>content = Message (''Error: '' @ error_text e), isError = True\<rparr>"

definition failure :: "string \<Rightarrow> 'a tool_result" where
  "failure msg = \<lparr>content = Message msg, isError = True\<rparr>"

definition success :: "string \<Rightarrow> 'a tool_result" where
  "success msg = \<lparr>content = Message msg, isError = False\<rparr>"

definition listing :: "'a \<Rightarrow> 'a tool_result" where
  "listing v = \<lparr>content = Listing v, isError = False\<rparr>"

text \<open>\<open>readJson<T>\<close> at the collection types the tools name.\<close>

definition readItems :: "FileHandler \<Rightarrow> filesystem \<Rightarrow> error + RPGItem option list" where
  "readItems fh fs =
     (case readJson fh ''data/Items.json'' fs of
        Inl e \<Rightarrow> Inl e | Inr (ItemsDoc xs) \<Rightarrow> Inr xs | Inr _ \<Rightarrow> Inl TypeMismatch)"

definition readSkills :: "FileHandler \<Rightarrow> filesystem \<Rightarrow> error + RPGSkill option list" where
  "readSkills fh fs =
     (case readJson fh ''data/Skills.json'' fs of
        Inl e \<Rightarrow> Inl e | Inr (SkillsDoc xs) \<Rightarrow> Inr xs | Inr _ \<Rightarrow> Inl TypeMismatch)"

definition readStates :: "FileHandler \<Rightarrow> filesystem \<Rightarrow> error + RPGState option list" where
  "readStates fh fs =
     (case readJson fh ''data/States.json'' fs of
        Inl e \<Rightarrow> Inl e | Inr (StatesDoc xs) \<Rightarrow> Inr xs | Inr _ \<Rightarrow> Inl TypeMismatch)"

definition readWeapons :: "FileHandler \<Rightarrow> filesystem \<Rightarrow> error + RPGWeapon option list" where
  "readWeapons fh fs =
     (case readJson fh ''data/Weapons.json'' fs of
        Inl e \<Rightarrow> Inl e | Inr (WeaponsDoc xs) \<Rightarrow> Inr xs | Inr _ \<Rightarrow> Inl TypeMismatch)"

definition readArmors :: "FileHandler \<Rightarrow> filesystem \<Rightarrow> error + RPGArmor option list" where
  "readArmors fh fs =
     (case readJson fh ''data/Armors.json'' fs of
        Inl e \<Rightarrow> Inl e | Inr (ArmorsDoc xs) \<Rightarrow> Inr xs | Inr _ \<Rightarrow> Inl TypeMismatch)"

definition readActors :: "FileHandler \<Rightarrow> filesystem \<Rightarrow> error + RPGActor option list" where
  "readActors fh fs =
     (case readJson fh ''data/Actors.json'' fs of
        Inl e \<Rightarrow> Inl e | Inr (ActorsDoc xs) \<Rightarrow> Inr xs | Inr _ \<Rightarrow> Inl TypeMismatch)"

definition readClasses :: "FileHandler \<Rightarrow> filesystem \<Rightarrow> error + RPGClass option list" where
  "readClasses fh fs =
     (case readJson fh ''data/Classes.json'' fs of
        Inl e \<Rightarrow> Inl e | Inr (ClassesDoc xs) \<Rightarrow> Inr xs | Inr _ \<Rightarrow> Inl TypeMismatch)"

definition readEnemies :: "FileHandler \<Rightarrow> filesystem \<Rightarrow> error + RPGEnemy option list" where
  "readEnemies fh fs =
     (case readJson fh ''data/Enemies.json'' fs of
        Inl e \<Rightarrow> Inl e | Inr (EnemiesDoc xs) \<Rightarrow> Inr xs | Inr _ \<Rightarrow> Inl TypeMismatch)"

definition readMapInfos :: "FileHandler \<Rightarrow> filesystem \<Rightarrow> error + RPGMapInfo option list" where
  "readMapInfos fh fs =
     (case readJson fh ''data/MapInfos.json'' fs of
        Inl e \<Rightarrow> Inl e | Inr (MapInfosDoc xs) \<Rightarrow> Inr xs | Inr _ \<Rightarrow> Inl TypeMismatch)"

text \<open>
  The tail of every mutating handler: write the collection, answer with the message, or
  with the caught error when the write throws.
\<close>

definition writeAndReport ::
  "FileHandler \<Rightarrow> string \<Rightarrow> json_doc \<Rightarrow> string \<Rightarrow> filesystem \<Rightarrow> unit tool_result \<times> filesystem" where
  "writeAndReport fh filename d msg fs =
     (case writeToDatabase fh filename d fs of
        (Inl e, fs') \<Rightarrow> (caught e, fs')
      | (Inr u, fs') \<Rightarrow> (success msg, fs'))"

section \<open>Item tools (tools/itemTools.ts)\<close>

text \<open>
  The arguments of a handler are its schema's output: defaults filled in, an optional
  argument an \<^typ>\<open>'a option\<close>. The schema has checked them before the handler runs.
\<close>

record createItemArgs =
  name :: string
  description :: string
  price :: int
  type :: string
  hpRecoveryPercent :: real
  hpRecoveryFixed :: int
  mpRecoveryPercent :: real
  mpRecoveryFixed :: int
  addStateId :: int
  iconIndex :: int

record updateItemArgs =
  id :: nat
  name :: "string option"
  description :: "string option"
  price :: "int option"
  iconIndex :: "int option"

definition createDefaultDamage_item :: RPGDamage where
  "createDefaultDamage_item =
     \<lparr>RPGDamage.type = DamageType_None, elementId = 0, formula = ''0'', variance = 20,
      critical = False\<rparr>"

definition createDefaultItem :: "nat \<Rightarrow> RPGItem" where
  "createDefaultItem i =
     \<lparr>RPGItem.id = i, RPGItem.name = Str [], RPGItem.description = [], RPGItem.iconIndex = 0,
      RPGItem.price = 0, itypeId = ItemType_Regular, consumable = True,
      RPGItem.scope = Scope_OneAlly, RPGItem.occasion = Occasion_Always,
      RPGItem.animationId = 0, RPGItem.damage = createDefaultDamage_item,
      RPGItem.effects = [], RPGItem.hitType = 0, RPGItem.repeats = 1, RPGItem.speed = 0,
      RPGItem.successRate = 100, RPGItem.tpGain = 0, RPGItem.note = []\<rparr>"

record ItemSummary =
  id :: nat
  name :: js_value
  description :: string
  price :: int
  iconIndex :: int
  type :: string

definition item_summary :: "RPGItem \<Rightarrow> ItemSummary" where
  "item_summary i =
     \<lparr>ItemSummary.id = RPGItem.id i, ItemSummary.name = RPGItem.name i,
      ItemSummary.description = RPGItem.description i, ItemSummary.price = RPGItem.price i,
      ItemSummary.iconIndex = RPGItem.iconIndex i,
      ItemSummary.type = (if itypeId i = ItemType_KeyItem then ''key'' else ''regular'')\<rparr>"

text \<open>
  The test \<open>i !== null && i.name !== ""\<close> that every listing and \<open>get_database_info\<close> filter
  with, for a collection whose records have the name \<open>nm\<close>, and the records that pass it.
  \<open>!==\<close> is strict: only the empty string itself fails it, and a name that is missing or is
  not a string passes.
\<close>

definition listed :: "('r \<Rightarrow> js_value) \<Rightarrow> 'r option \<Rightarrow> bool" where
  "listed nm i = (case i of None \<Rightarrow> False | Some r \<Rightarrow> nm r \<noteq> Str [])"

definition named_records :: "('r \<Rightarrow> js_value) \<Rightarrow> 'r option list \<Rightarrow> 'r list" where
  "named_records nm arr = map the (filter (listed nm) arr)"

definition get_items :: "FileHandler \<Rightarrow> filesystem \<Rightarrow> ItemSummary list tool_result" where
  "get_items fh fs =
     (case readItems fh fs of
        Inl e \<Rightarrow> caught e
      | Inr items \<Rightarrow> listing (map item_summary (named_records RPGItem.name items)))"

definition create_item ::
  "FileHandler \<Rightarrow> createItemArgs \<Rightarrow> filesystem \<Rightarrow> unit tool_result \<times> filesystem" where
  "create_item fh args fs =
     (case readItems fh fs of
        Inl e \<Rightarrow> (caught e, fs)
      | Inr items \<Rightarrow>
          let newId = length items;
              newItem = (createDefaultItem newId)
                \<lparr>RPGItem.name := Str (createItemArgs.name args),
                 RPGItem.description := createItemArgs.description args,
                 RPGItem.price := createItemArgs.price args,
                 RPGItem.iconIndex := createItemArgs.iconIndex args,
                 itypeId := (if createItemArgs.type args = ''key'' then ItemType_KeyItem
                             else ItemType_Regular)\<rparr>;
              newItem =
                (if hpRecoveryPercent args > 0 \<or> hpRecoveryFixed args > 0
                 then newItem\<lparr>RPGItem.effects := RPGItem.effects newItem @
                        [\<lparr>RPGEffect.code = EffectCode_RecoverHP, RPGEffect.dataId = 0,
                          value1 = hpRecoveryPercent args / 100,
                          value2 = hpRecoveryFixed args\<rparr>]\<rparr>
                 else newItem);
              newItem =
                (if mpRecoveryPercent args > 0 \<or> mpRecoveryFixed args > 0
                 then newItem\<lparr>RPGItem.effects := RPGItem.effects newItem @
                        [\<lparr>RPGEffect.code = EffectCode_RecoverMP, RPGEffect.dataId = 0,
                          value1 = mpRecoveryPercent args / 100,
                          value2 = mpRecoveryFixed args\<rparr>]\<rparr>
                 else newItem);
              newItem =
                (if addStateId args > 0
                 then newItem\<lparr>RPGItem.effects := RPGItem.effects newItem @
                        [\<lparr>RPGEffect.code = EffectCode_AddState,
                          RPGEffect.dataId = addStateId args, value1 = 1, value2 = 0\<rparr>]\<rparr>
                 else newItem);
              newItem =
                (if length (RPGItem.effects newItem) > 0
                 then newItem\<lparr>RPGItem.scope := Scope_OneAlly,
                                RPGItem.occasion := Occasion_Always\<rparr>
                 else newItem)
          in writeAndReport fh ''Items.json'' (ItemsDoc (items @ [Some newItem]))
               (''Created item '' @ dquote @ createItemArgs.name args @ dquote @ '' with ID ''
                  @ decimal newId) fs)"

definition update_item ::
  "FileHandler \<Rightarrow> updateItemArgs \<Rightarrow> filesystem \<Rightarrow> unit tool_result \<times> filesystem" where
  "update_item fh args fs =
     (case readItems fh fs of
        Inl e \<Rightarrow> (caught e, fs)
      | Inr items \<Rightarrow>
          let i = updateItemArgs.id args in
          if i \<ge> length items \<or> items ! i = None
          then (failure (''Error: Item with ID '' @ decimal i @ '' not found''), fs)
          else
            let item = the (items ! i);
                item = (case updateItemArgs.name args of
                          None \<Rightarrow> item | Some v \<Rightarrow> item\<lparr>RPGItem.name := Str v\<rparr>);
                item = (case updateItemArgs.description args of
                          None \<Rightarrow> item | Some v \<Rightarrow> item\<lparr>RPGItem.description := v\<rparr>);
                item = (case updateItemArgs.price args of
                          None \<Rightarrow> item | Some v \<Rightarrow> item\<lparr>RPGItem.price := v\<rparr>);
                item = (case updateItemArgs.iconIndex args of
                          None \<Rightarrow> item | Some v \<Rightarrow> item\<lparr>RPGItem.iconIndex := v\<rparr>)
            in writeAndReport fh ''Items.json'' (ItemsDoc (items[i := Some item]))
                 (''Updated item ID '' @ decimal i) fs)"

section \<open>Skill tools (tools/skillTools.ts)\<close>

record createSkillArgs =
  name :: string
  description :: string
  mpCost :: int
  tpCost :: int
  iconIndex :: int
  scope :: int
  damageType :: int
  damageFormula :: string

definition createDefaultDamage_skill :: RPGDamage where
  "createDefaultDamage_skill =
     \<lparr>RPGDamage.type = DamageType_HPDamage, elementId = 0,
      formula = ''a.atk * 4 - b.def * 2'', variance = 20, critical = False\<rparr>"

definition createDefaultSkill :: "nat \<Rightarrow> RPGSkill" where
  "createDefaultSkill i =
     \<lparr>RPGSkill.id = i, RPGSkill.name = Str [], RPGSkill.description = [], RPGSkill.iconIndex = 0,
      stypeId = 1, RPGSkill.scope = Scope_OneEnemy, RPGSkill.occasion = Occasion_Battle,
      RPGSkill.mpCost = 0, RPGSkill.tpCost = 0, RPGSkill.damage = createDefaultDamage_skill,
      RPGSkill.effects = [], requiredWtypeId1 = 0, requiredWtypeId2 = 0, RPGSkill.speed = 0,
      RPGSkill.successRate = 100, RPGSkill.repeats = 1, RPGSkill.tpGain = 0,
      RPGSkill.hitType = 1, RPGSkill.animationId = 0, RPGSkill.message1 = [],
      RPGSkill.message2 = [], RPGSkill.note = []\<rparr>"

record SkillSummary =
  id :: nat
  name :: js_value
  description :: string
  mpCost :: int
  tpCost :: int
  iconIndex :: int

definition skill_summary :: "RPGSkill \<Rightarrow> SkillSummary" where
  "skill_summary s =
     \<lparr>SkillSummary.id = RPGSkill.id s, SkillSummary.name = RPGSkill.name s,
      SkillSummary.description = RPGSkill.description s, SkillSummary.mpCost = RPGSkill.mpCost s,
      SkillSummary.tpCost = RPGSkill.tpCost s, SkillSummary.iconIndex = RPGSkill.iconIndex s\<rparr>"

definition get_skills :: "FileHandler \<Rightarrow> filesystem \<Rightarrow> SkillSummary list tool_result" where
  "get_skills fh fs =
     (case readSkills fh fs of
        Inl e \<Rightarrow> caught e
      | Inr skills \<Rightarrow> listing (map skill_summary (named_records RPGSkill.name skills)))"

definition create_skill ::
  "FileHandler \<Rightarrow> createSkillArgs \<Rightarrow> filesystem \<Rightarrow> unit tool_result \<times> filesystem" where
  "create_skill fh args fs =
     (case readSkills fh fs of
        Inl e \<Rightarrow> (caught e, fs)
      | Inr skills \<Rightarrow>
          let newId = length skills;
              newSkill = (createDefaultSkill newId)
                \<lparr>RPGSkill.name := Str (createSkillArgs.name args),
                 RPGSkill.description := createSkillArgs.description args,
                 RPGSkill.mpCost := createSkillArgs.mpCost args,
                 RPGSkill.tpCost := createSkillArgs.tpCost args,
                 RPGSkill.iconIndex := createSkillArgs.iconIndex args,
                 RPGSkill.scope := createSkillArgs.scope args\<rparr>;
              newSkill = newSkill\<lparr>RPGSkill.damage :=
                (RPGSkill.damage newSkill)\<lparr>RPGDamage.type := damageType args,
                                              formula := damageFormula args\<rparr>\<rparr>
          in writeAndReport fh ''Skills.json'' (SkillsDoc (skills @ [Some newSkill]))
               (''Created skill '' @ dquote @ createSkillArgs.name args @ dquote @ '' with ID ''
                  @ decimal newId) fs)"

section \<open>State tools (tools/stateTools.ts)\<close>

record createStateArgs =
  name :: string
  iconIndex :: int
  restriction :: int
  priority :: int
  minTurns :: int
  maxTurns :: int
  autoRemovalTiming :: int
  chanceByDamage :: int
  removeAtBattleEnd :: bool
  regenerateMpRate :: real

record updateStateArgs =
  id :: nat
  name :: "string option"
  iconIndex :: "int option"
  minTurns :: "int option"
  maxTurns :: "int option"

definition createDefaultState :: "nat \<Rightarrow> RPGState" where
  "createDefaultState i =
     \<lparr>RPGState.id = i, RPGState.name = Str [], RPGState.iconIndex = 0, RPGState.restriction = 0,
      RPGState.priority = 50, motion = 0, overlay = 0, RPGState.removeAtBattleEnd = True,
      removeByRestriction = False, RPGState.autoRemovalTiming = 0, RPGState.minTurns = 1,
      RPGState.maxTurns = 1, removeByDamage = False, RPGState.chanceByDamage = 0,
      removeByWalking = False, stepsToRemove = 100, RPGState.message1 = [],
      RPGState.message2 = [], message3 = [], message4 = [], RPGState.traits = [],
      RPGState.note = []\<rparr>"

record StateSummary =
  id :: nat
  name :: js_value
  iconIndex :: int
  restriction :: int
  duration :: string

definition state_summary :: "RPGState \<Rightarrow> StateSummary" where
  "state_summary s =
     \<lparr>StateSummary.id = RPGState.id s, StateSummary.name = RPGState.name s,
      StateSummary.iconIndex = RPGState.iconIndex s,
      StateSummary.restriction = RPGState.restriction s,
      duration = decimal_int (RPGState.minTurns s) @ ''-''
                   @ decimal_int (RPGState.maxTurns s) @ '' turns''\<rparr>"

definition get_states :: "FileHandler \<Rightarrow> filesystem \<Rightarrow> StateSummary list tool_result" where
  "get_states fh fs =
     (case readStates fh fs of
        Inl e \<Rightarrow> caught e
      | Inr states \<Rightarrow> listing (map state_summary (named_records RPGState.name states)))"

definition create_state ::
  "FileHandler \<Rightarrow> createStateArgs \<Rightarrow> filesystem \<Rightarrow> unit tool_result \<times> filesystem" where
  "create_state fh args fs =
     (case readStates fh fs of
        Inl e \<Rightarrow> (caught e, fs)
      | Inr states \<Rightarrow>
          let newId = length states;
              newState = (createDefaultState newId)
                \<lparr>RPGState.name := Str (createStateArgs.name args),
                 RPGState.iconIndex := createStateArgs.iconIndex args,
                 RPGState.restriction := createStateArgs.restriction args,
                 RPGState.priority := createStateArgs.priority args,
                 RPGState.minTurns := createStateArgs.minTurns args,
                 RPGState.maxTurns := createStateArgs.maxTurns args,
                 RPGState.autoRemovalTiming := createStateArgs.autoRemovalTiming args,
                 RPGState.removeAtBattleEnd := createStateArgs.removeAtBattleEnd args\<rparr>;
              newState =
                (if createStateArgs.chanceByDamage args > 0
                 then newState\<lparr>removeByDamage := True,
                                 RPGState.chanceByDamage := createStateArgs.chanceByDamage args\<rparr>
                 else newState);
              newState =
                (if regenerateMpRate args \<noteq> 0
                 then newState\<lparr>RPGState.traits := RPGState.traits newState @
                        [\<lparr>RPGTrait.code = 22, RPGTrait.dataId = 3,
                          value = regenerateMpRate args / 100\<rparr>]\<rparr>
                 else newState)
          in writeAndReport fh ''States.json'' (StatesDoc (states @ [Some newState]))
               (''Created state '' @ dquote @ createStateArgs.name args @ dquote @ '' with ID ''
                  @ decimal newId) fs)"

text \<open>
  \<open>!states[id]\<close> is the null test here: a record is an object, and an object is truthy.
\<close>

definition update_state ::
  "FileHandler \<Rightarrow> updateStateArgs \<Rightarrow> filesystem \<Rightarrow> unit tool_result \<times> filesystem" where
  "update_state fh args fs =
     (case readStates fh fs of
        Inl e \<Rightarrow> (caught e, fs)
      | Inr states \<Rightarrow>
          let i = updateStateArgs.id args in
          if i \<ge> length states \<or> states ! i = None
          then (failure (''Error: State ID '' @ decimal i @ '' not found''), fs)
          else
            let state = the (states ! i);
                state = (case updateStateArgs.name args of
                           None \<Rightarrow> state | Some v \<Rightarrow> state\<lparr>RPGState.name := Str v\<rparr>);
                state = (case updateStateArgs.iconIndex args of
                           None \<Rightarrow> state | Some v \<Rightarrow> state\<lparr>RPGState.iconIndex := v\<rparr>);
                state = (case updateStateArgs.minTurns args of
                           None \<Rightarrow> state | Some v \<Rightarrow> state\<lparr>RPGState.minTurns := v\<rparr>);
                state = (case updateStateArgs.maxTurns args of
                           None \<Rightarrow> state | Some v \<Rightarrow> state\<lparr>RPGState.maxTurns := v\<rparr>)
            in writeAndReport fh ''States.json'' (StatesDoc (states[i := Some state]))
                 (''Updated state '' @ dquote @ js_String (RPGState.name state) @ dquote @ '' (ID ''
                    @ decimal i @ '')'') fs)"

section \<open>Weapon and enemy tools (tools/weaponTools.ts)\<close>

record createWeaponArgs =
  name :: string
  description :: string
  price :: int
  wtypeId :: int
  attack :: int
  elementId :: int
  iconIndex :: int
  animationId :: int

definition createDefaultWeapon :: "nat \<Rightarrow> RPGWeapon" where
  "createDefaultWeapon i =
     \<lparr>RPGWeapon.id = i, RPGWeapon.name = Str [], RPGWeapon.description = [],
      RPGWeapon.iconIndex = 0, RPGWeapon.price = 0, RPGWeapon.wtypeId = 1,
      RPGWeapon.etypeId = 1, RPGWeapon.params = [0, 0, 0, 0, 0, 0, 0, 0],
      RPGWeapon.traits = [], RPGWeapon.animationId = 0, RPGWeapon.note = []\<rparr>"

definition create_weapon ::
  "FileHandler \<Rightarrow> createWeaponArgs \<Rightarrow> filesystem \<Rightarrow> unit tool_result \<times> filesystem" where
  "create_weapon fh args fs =
     (case readWeapons fh fs of
        Inl e \<Rightarrow> (caught e, fs)
      | Inr weapons \<Rightarrow>
          let newId = length weapons;
              newWeapon = (createDefaultWeapon newId)
                \<lparr>RPGWeapon.name := Str (createWeaponArgs.name args),
                 RPGWeapon.description := createWeaponArgs.description args,
                 RPGWeapon.price := createWeaponArgs.price args,
                 RPGWeapon.wtypeId := createWeaponArgs.wtypeId args,
                 RPGWeapon.iconIndex := createWeaponArgs.iconIndex args,
                 RPGWeapon.animationId := createWeaponArgs.animationId args\<rparr>;
              newWeapon = newWeapon\<lparr>RPGWeapon.params :=
                (RPGWeapon.params newWeapon)[2 := attack args]\<rparr>;
              newWeapon =
                (if createWeaponArgs.elementId args > 0
                 then newWeapon\<lparr>RPGWeapon.traits := RPGWeapon.traits newWeapon @
                        [\<lparr>RPGTrait.code = 31, RPGTrait.dataId = createWeaponArgs.elementId args,
                          value = 1\<rparr>]\<rparr>
                 else newWeapon)
          in writeAndReport fh ''Weapons.json'' (WeaponsDoc (weapons @ [Some newWeapon]))
               (''Created weapon '' @ dquote @ createWeaponArgs.name args @ dquote
                  @ '' with ID '' @ decimal newId) fs)"


text \<open>As in \<open>update_state\<close>, \<open>!weapons[id]\<close> is the null test; so for the other updates below.\<close>

record updateWeaponArgs =
  id :: nat
  name :: "string option"
  description :: "string option"
  price :: "int option"
  attack :: "int option"
  iconIndex :: "int option"


record createEnemyArgs =
  name :: string
  maxHp :: int
  maxMp :: int
  atk :: int
  def :: int
  mat :: int
  mdf :: int
  agi :: int
  luk :: int
  exp :: int
  gold :: int
  battlerName :: "string option"
  battlerHue :: int

definition createDefaultEnemy :: "nat \<Rightarrow> RPGEnemy" where
  "createDefaultEnemy i =
     \<lparr>RPGEnemy.id = i, RPGEnemy.name = Str [], RPGEnemy.battlerName = [], RPGEnemy.battlerHue = 0,
      RPGEnemy.params = [100, 0, 10, 10, 10, 10, 10, 10], RPGEnemy.exp = 0, RPGEnemy.gold = 0,
      dropItems = [\<lparr>kind = 0, DropItem.dataId = 1, denominator = 1\<rparr>,
                   \<lparr>kind = 0, DropItem.dataId = 1, denominator = 1\<rparr>,
                   \<lparr>kind = 0, DropItem.dataId = 1, denominator = 1\<rparr>],
      actions = [], RPGEnemy.traits = [], RPGEnemy.note = []\<rparr>"

text \<open>\<open>if (battlerName)\<close>: the name was given and is not the empty string.\<close>

definition create_enemy ::
  "FileHandler \<Rightarrow> createEnemyArgs \<Rightarrow> filesystem \<Rightarrow> unit tool_result \<times> filesystem" where
  "create_enemy fh args fs =
     (case readEnemies fh fs of
        Inl e \<Rightarrow> (caught e, fs)
      | Inr enemies \<Rightarrow>
          let newId = length enemies;
              newEnemy = (createDefaultEnemy newId)
                \<lparr>RPGEnemy.name := Str (createEnemyArgs.name args),
                 RPGEnemy.params := [maxHp args, maxMp args, atk args, createEnemyArgs.def args,
                                     mat args, createEnemyArgs.mdf args, createEnemyArgs.agi args,
                                     luk args],
                 RPGEnemy.exp := createEnemyArgs.exp args,
                 RPGEnemy.gold := createEnemyArgs.gold args\<rparr>;
              newEnemy =
                (case createEnemyArgs.battlerName args of
                   None \<Rightarrow> newEnemy
                 | Some b \<Rightarrow> if b \<noteq> [] then newEnemy\<lparr>RPGEnemy.battlerName := b\<rparr> else newEnemy);
              newEnemy = newEnemy\<lparr>RPGEnemy.battlerHue := createEnemyArgs.battlerHue args\<rparr>
          in writeAndReport fh ''Enemies.json'' (EnemiesDoc (enemies @ [Some newEnemy]))
               (''Created enemy '' @ dquote @ createEnemyArgs.name args @ dquote
                  @ '' with ID '' @ decimal newId) fs)"

record updateEnemyArgs =
  id :: nat
  name :: "string option"
  maxHp :: "int option"
  atk :: "int option"
  exp :: "int option"
  gold :: "int option"
  battlerName :: "string option"


section \<open>Armor tools (tools/armorTools.ts)\<close>

record createArmorArgs =
  name :: string
  description :: string
  price :: int
  atypeId :: int
  etypeId :: int
  def :: int
  mdf :: int
  agi :: int
  iconIndex :: int

definition createDefaultArmor :: "nat \<Rightarrow> RPGArmor" where
  "createDefaultArmor i =
     \<lparr>RPGArmor.id = i, RPGArmor.name = Str [], RPGArmor.description = [], RPGArmor.iconIndex = 0,
      RPGArmor.price = 0, RPGArmor.atypeId = 1, RPGArmor.etypeId = 2,
      RPGArmor.params = [0, 0, 0, 0, 0, 0, 0, 0], RPGArmor.traits = [], RPGArmor.note = []\<rparr>"

definition create_armor ::
  "FileHandler \<Rightarrow> createArmorArgs \<Rightarrow> filesystem \<Rightarrow> unit tool_result \<times> filesystem" where
  "create_armor fh args fs =
     (case readArmors fh fs of
        Inl e \<Rightarrow> (caught e, fs)
      | Inr armors \<Rightarrow>
          let newId = length armors;
              newArmor = (createDefaultArmor newId)
                \<lparr>RPGArmor.name := Str (createArmorArgs.name args),
                 RPGArmor.description := createArmorArgs.description args,
                 RPGArmor.price := createArmorArgs.price args,
                 RPGArmor.atypeId := createArmorArgs.atypeId args,
                 RPGArmor.etypeId := createArmorArgs.etypeId args,
                 RPGArmor.iconIndex := createArmorArgs.iconIndex args\<rparr>;
              newArmor = newArmor\<lparr>RPGArmor.params :=
                (RPGArmor.params newArmor)[3 := createArmorArgs.def args]\<rparr>;
              newArmor = newArmor\<lparr>RPGArmor.params :=
                (RPGArmor.params newArmor)[5 := createArmorArgs.mdf args]\<rparr>;
              newArmor = newArmor\<lparr>RPGArmor.params :=
                (RPGArmor.params newArmor)[6 := createArmorArgs.agi args]\<rparr>
          in writeAndReport fh ''Armors.json'' (ArmorsDoc (armors @ [Some newArmor]))
               (''Created armor '' @ dquote @ createArmorArgs.name args @ dquote
                  @ '' with ID '' @ decimal newId) fs)"

record updateArmorArgs =
  id :: nat
  name :: "string option"
  description :: "string option"
  price :: "int option"
  def :: "int option"
  mdf :: "int option"
  iconIndex :: "int option"


section \<open>Actor tools (tools/actorTools.ts)\<close>

record createActorArgs =
  name :: string
  nickname :: string
  classId :: int
  initialLevel :: int
  maxLevel :: int
  profile :: string
  characterName :: string
  characterIndex :: int
  faceName :: string
  faceIndex :: int

definition createDefaultActor :: "nat \<Rightarrow> RPGActor" where
  "createDefaultActor i =
     \<lparr>RPGActor.id = i, RPGActor.name = Str [], RPGActor.nickname = [], RPGActor.classId = 1,
      RPGActor.initialLevel = 1, RPGActor.maxLevel = 99, RPGActor.characterName = [],
      RPGActor.characterIndex = 0, RPGActor.faceName = [], RPGActor.faceIndex = 0,
      RPGActor.battlerName = [], equips = [0, 0, 0, 0, 0], RPGActor.profile = [],
      RPGActor.note = []\<rparr>"

definition create_actor ::
  "FileHandler \<Rightarrow> createActorArgs \<Rightarrow> filesystem \<Rightarrow> unit tool_result \<times> filesystem" where
  "create_actor fh args fs =
     (case readActors fh fs of
        Inl e \<Rightarrow> (caught e, fs)
      | Inr actors \<Rightarrow>
          let newId = length actors;
              newActor = (createDefaultActor newId)
                \<lparr>RPGActor.name := Str (createActorArgs.name args),
                 RPGActor.nickname := createActorArgs.nickname args,
                 RPGActor.classId := createActorArgs.classId args,
                 RPGActor.initialLevel := createActorArgs.initialLevel args,
                 RPGActor.maxLevel := createActorArgs.maxLevel args,
                 RPGActor.profile := createActorArgs.profile args,
                 RPGActor.characterName := createActorArgs.characterName args,
                 RPGActor.characterIndex := createActorArgs.characterIndex args,
                 RPGActor.faceName := createActorArgs.faceName args,
                 RPGActor.faceIndex := createActorArgs.faceIndex args\<rparr>
          in writeAndReport fh ''Actors.json'' (ActorsDoc (actors @ [Some newActor]))
               (''Created actor '' @ dquote @ createActorArgs.name args @ dquote
                  @ '' with ID '' @ decimal newId) fs)"

record updateActorArgs =
  id :: nat
  name :: "string option"
  nickname :: "string option"
  classId :: "int option"
  initialLevel :: "int option"
  maxLevel :: "int option"
  profile :: "string option"
  characterName :: "string option"
  faceName :: "string option"


section \<open>Class tools (tools/classTools.ts)\<close>

record createClassArgs =
  name :: string
  expBase :: int
  expAccel :: int
  maxHp :: int
  maxMp :: int
  atk :: int
  def :: int

definition createDefaultClass :: "nat \<Rightarrow> RPGClass" where
  "createDefaultClass i =
     \<lparr>RPGClass.id = i, RPGClass.name = Str [], expParams = [30, 20, 30, 30],
      RPGClass.params =
        [replicate 100 100, replicate 100 100, replicate 100 10, replicate 100 10,
         replicate 100 10, replicate 100 10, replicate 100 10, replicate 100 10],
      learnings = [], RPGClass.traits = [], RPGClass.note = []\<rparr>"

definition create_class ::
  "FileHandler \<Rightarrow> createClassArgs \<Rightarrow> filesystem \<Rightarrow> unit tool_result \<times> filesystem" where
  "create_class fh args fs =
     (case readClasses fh fs of
        Inl e \<Rightarrow> (caught e, fs)
      | Inr classes \<Rightarrow>
          let newId = length classes;
              newClass = (createDefaultClass newId)\<lparr>RPGClass.name := Str (createClassArgs.name args)\<rparr>;
              newClass = newClass\<lparr>expParams := (expParams newClass)[0 := expBase args]\<rparr>;
              newClass = newClass\<lparr>expParams := (expParams newClass)[1 := expAccel args]\<rparr>
          in writeAndReport fh ''Classes.json'' (ClassesDoc (classes @ [Some newClass]))
               (''Created class '' @ dquote @ createClassArgs.name args @ dquote
                  @ '' with ID '' @ decimal newId) fs)"

record updateClassArgs =
  id :: nat
  name :: "string option"


section \<open>Database summary (tools/databaseTools.ts)\<close>

text \<open>The summary object: \<open>actors: {count: n}\<close> is the field \<open>actors_count\<close>, and so on.\<close>

record DatabaseSummary =
  actors_count :: nat
  classes_count :: nat
  skills_count :: nat
  items_count :: nat
  weapons_count :: nat
  armors_count :: nat
  enemies_count :: nat
  states_count :: nat

definition count :: "('r \<Rightarrow> js_value) \<Rightarrow> 'r option list \<Rightarrow> nat" where
  "count nm arr = length (filter (listed nm) arr)"

text \<open>
  The eight reads of \<open>Promise.all\<close>, taken in the order of the array; when several of them
  fail the handler reports one of the failures.
\<close>

definition get_database_info :: "FileHandler \<Rightarrow> filesystem \<Rightarrow> DatabaseSummary tool_result" where
  "get_database_info fh fs =
     (case readActors fh fs of Inl e \<Rightarrow> caught e | Inr actors \<Rightarrow>
      case readClasses fh fs of Inl e \<Rightarrow> caught e | Inr classes \<Rightarrow>
      case readItems fh fs of Inl e \<Rightarrow> caught e | Inr items \<Rightarrow>
      case readSkills fh fs of Inl e \<Rightarrow> caught e | Inr skills \<Rightarrow>
      case readWeapons fh fs of Inl e \<Rightarrow> caught e | Inr weapons \<Rightarrow>
      case readArmors fh fs of Inl e \<Rightarrow> caught e | Inr armors \<Rightarrow>
      case readEnemies fh fs of Inl e \<Rightarrow> caught e | Inr enemies \<Rightarrow>
      case readStates fh fs of Inl e \<Rightarrow> caught e | Inr states \<Rightarrow>
        listing
          \<lparr>actors_count = count RPGActor.name actors,
           classes_count = count RPGClass.name classes,
           skills_count = count RPGSkill.name skills,
           items_count = count RPGItem.name items,
           weapons_count = count RPGWeapon.name weapons,
           armors_count = count RPGArmor.name armors,
           enemies_count = count RPGEnemy.name enemies,
           states_count = count RPGState.name states\<rparr>)"

section \<open>Limit tools (tools/limitTools.ts)\<close>

definition databaseFiles :: "(string \<times> string) list" where
  "databaseFiles =
     [(''items'', ''Items.json''), (''weapons'', ''Weapons.json''), (''armors'', ''Armors.json''),
      (''skills'', ''Skills.json''), (''actors'', ''Actors.json''), (''classes'', ''Classes.json''),
      (''enemies'', ''Enemies.json''), (''states'', ''States.json''),
      (''animations'', ''Animations.json''), (''tilesets'', ''Tilesets.json''),
      (''troops'', ''Troops.json''), (''commonEvents'', ''CommonEvents.json'')]"

text \<open>The loop \<open>while (data.length < targetLength) data.push(null)\<close>.\<close>

function expand :: "nat \<Rightarrow> 'a option list \<Rightarrow> 'a option list" where
  "expand targetLength xs =
     (if length xs < targetLength then expand targetLength (xs @ [None]) else xs)"
  by pat_completeness auto
termination
  by (relation "measure (\<lambda>(targetLength, xs). targetLength - length xs)") auto

declare expand.simps [simp del]

text \<open>
  The loop that shrinks: as long as the array is longer than the target, look at the last
  entry, leave with the ID of that entry when it is not \<open>null\<close>, pop it otherwise.
\<close>

function shrink :: "nat \<Rightarrow> 'a option list \<Rightarrow> nat + 'a option list" where
  "shrink targetLength xs =
     (if length xs > targetLength then
        (if last xs \<noteq> None then Inl (length xs - 1)
         else shrink targetLength (butlast xs))
      else Inr xs)"
  by pat_completeness auto
termination
  by (relation "measure (\<lambda>(targetLength, xs). length xs)") auto

declare shrink.simps [simp del]

definition resize :: "nat \<Rightarrow> 'a option list \<Rightarrow> nat + 'a option list" where
  "resize limit xs =
     (let targetLength = limit + 1 in
      if targetLength > length xs then Inr (expand targetLength xs)
      else if targetLength < length xs then shrink targetLength xs
      else Inr xs)"

text \<open>
  The handler reads the file as \<open>unknown[]\<close>: any array, whatever its records. \<open>slots\<close> tells
  for each position of an array document whether it holds a record; \<open>resizeDoc\<close> is the
  resize of the array inside the document.
\<close>

fun slots :: "json_doc \<Rightarrow> bool list option" where
  "slots (ItemsDoc xs) = Some (map (\<lambda>x. x \<noteq> None) xs)"
| "slots (WeaponsDoc xs) = Some (map (\<lambda>x. x \<noteq> None) xs)"
| "slots (ArmorsDoc xs) = Some (map (\<lambda>x. x \<noteq> None) xs)"
| "slots (SkillsDoc xs) = Some (map (\<lambda>x. x \<noteq> None) xs)"
| "slots (ActorsDoc xs) = Some (map (\<lambda>x. x \<noteq> None) xs)"
| "slots (ClassesDoc xs) = Some (map (\<lambda>x. x \<noteq> None) xs)"
| "slots (EnemiesDoc xs) = Some (map (\<lambda>x. x \<noteq> None) xs)"
| "slots (StatesDoc xs) = Some (map (\<lambda>x. x \<noteq> None) xs)"
| "slots (UnknownsDoc xs) = Some (map (\<lambda>x. x \<noteq> None) xs)"
| "slots (MapInfosDoc xs) = Some (map (\<lambda>x. x \<noteq> None) xs)"
| "slots (MapDoc m) = None"
| "slots (SystemDoc s) = None"

fun resizeDoc :: "nat \<Rightarrow> json_doc \<Rightarrow> (nat + json_doc) option" where
  "resizeDoc limit (ItemsDoc xs) = Some (map_sum (\<lambda>k. k) ItemsDoc (resize limit xs))"
| "resizeDoc limit (WeaponsDoc xs) = Some (map_sum (\<lambda>k. k) WeaponsDoc (resize limit xs))"
| "resizeDoc limit (ArmorsDoc xs) = Some (map_sum (\<lambda>k. k) ArmorsDoc (resize limit xs))"
| "resizeDoc limit (SkillsDoc xs) = Some (map_sum (\<lambda>k. k) SkillsDoc (resize limit xs))"
| "resizeDoc limit (ActorsDoc xs) = Some (map_sum (\<lambda>k. k) ActorsDoc (resize limit xs))"
| "resizeDoc limit (ClassesDoc xs) = Some (map_sum (\<lambda>k. k) ClassesDoc (resize limit xs))"
| "resizeDoc limit (EnemiesDoc xs) = Some (map_sum (\<lambda>k. k) EnemiesDoc (resize limit xs))"
| "resizeDoc limit (StatesDoc xs) = Some (map_sum (\<lambda>k. k) StatesDoc (resize limit xs))"
| "resizeDoc limit (UnknownsDoc xs) = Some (map_sum (\<lambda>k. k) UnknownsDoc (resize limit xs))"
| "resizeDoc limit (MapInfosDoc xs) = Some (map_sum (\<lambda>k. k) MapInfosDoc (resize limit xs))"
| "resizeDoc limit (MapDoc m) = None"
| "resizeDoc limit (SystemDoc s) = None"

definition set_database_limit ::
  "FileHandler \<Rightarrow> string \<Rightarrow> nat \<Rightarrow> filesystem \<Rightarrow> unit tool_result \<times> filesystem" where
  "set_database_limit fh database limit fs =
     (case map_of databaseFiles database of
        None \<Rightarrow>
          (failure (''Error: Unknown database '' @ dquote @ database @ dquote), fs)
      | Some filename \<Rightarrow>
          (case readJson fh (''data/'' @ filename) fs of
             Inl e \<Rightarrow> (caught e, fs)
           | Inr doc \<Rightarrow>
               (case (slots doc, resizeDoc limit doc) of
                  (Some bs, Some (Inl k)) \<Rightarrow>
                    (failure (''Error: Cannot shrink '' @ database @ '' to ''
                       @ decimal limit @ ''. Entry at ID '' @ decimal k
                       @ '' has data.''), fs)
                | (Some bs, Some (Inr doc')) \<Rightarrow>
                    writeAndReport fh filename doc'
                      (database @ '' limit changed from ''
                         @ decimal_int (int (length bs) - 1) @ '' to ''
                         @ decimal limit) fs
                | _ \<Rightarrow> (caught TypeMismatch, fs))))"

section \<open>Map tools (tools/mapTools.ts)\<close>

record createMapArgs =
  name :: string
  displayName :: string
  width :: nat
  height :: nat
  tilesetId :: int
  scrollType :: int
  encounterSteps :: int
  parentId :: int

definition createDefaultMap :: "nat \<Rightarrow> nat \<Rightarrow> RPGMap" where
  "createDefaultMap w h =
     (let dataSize = w * h * 6;
          cells = replicate dataSize 0
      in \<lparr>RPGMap.displayName = [], RPGMap.tilesetId = 1, RPGMap.width = w, RPGMap.height = h,
          RPGMap.scrollType = ScrollType_NoLoop, specifyBattleback = False,
          battleback1Name = [], battleback2Name = [], autoplayBgm = False,
          bgm = \<lparr>Audio.name = [], pan = 0, pitch = 100, volume = 90\<rparr>,
          autoplayBgs = False,
          bgs = \<lparr>Audio.name = [], pan = 0, pitch = 100, volume = 90\<rparr>,
          disableDashing = False, encounterList = [], encounterStep = 30,
          parallaxName = [], parallaxLoopX = False, parallaxLoopY = False,
          parallaxSx = 0, parallaxSy = 0, parallaxShow = False,
          data = cells, events = [], RPGMap.note = []\<rparr>)"

text \<open>
  The search for the next ID: \<open>newId\<close> starts at 1, every \<open>i\<close> from 1 below the length whose
  entry is not \<open>null\<close> sets it to \<open>i + 1\<close>, and afterwards a longer index sets it to its
  length.
\<close>

definition nextMapId :: "RPGMapInfo option list \<Rightarrow> nat" where
  "nextMapId mapInfos =
     (let newId = foldl (\<lambda>newId i. if mapInfos ! i \<noteq> None then i + 1 else newId) 1
                    [1 ..< length mapInfos]
      in if length mapInfos > newId then length mapInfos else newId)"

text \<open>
  \<open>mapInfos.filter(m => m !== null).reduce((max, m) => Math.max(max, m.order || 0), 0)\<close>.
\<close>

definition maxOrder :: "RPGMapInfo option list \<Rightarrow> int" where
  "maxOrder mapInfos =
     foldl (\<lambda>mx m. max mx (if order m \<noteq> 0 then order m else 0)) 0
       (map the (filter (\<lambda>m. m \<noteq> None) mapInfos))"

text \<open>The name of a map's body file, as \<open>update_map\<close> builds it: the ID padded to three digits.\<close>

definition mapFilename :: "nat \<Rightarrow> string" where
  "mapFilename mapId = ''Map'' @ padStart 3 (CHR ''0'') (decimal mapId) @ ''.json''"

text \<open>
  Modelled from the spec: \<open>SafeWriter.writeMap(id, body, indexEntry)\<close>, not among the
  sources. Section 4.4: the map body goes first, into its own file; then the entry is
  appended to the map index; then the version is bumped. A failure at any step ends the
  operation and leaves what was written before it.
\<close>

definition writeMap ::
  "FileHandler \<Rightarrow> nat \<Rightarrow> RPGMap \<Rightarrow> RPGMapInfo \<Rightarrow> filesystem \<Rightarrow> (error + unit) \<times> filesystem" where
  "writeMap fh mapId body indexEntry fs =
     (case atomicWrite fh (''data/'' @ mapFilename mapId) (MapDoc body) fs of
        (Inl e, fs1) \<Rightarrow> (Inl e, fs1)
      | (Inr u, fs1) \<Rightarrow>
          (case readMapInfos fh fs1 of
             Inl e \<Rightarrow> (Inl (ReadFailure e), fs1)
           | Inr mapInfos \<Rightarrow>
               (case atomicWrite fh ''data/MapInfos.json''
                       (MapInfosDoc (mapInfos @ [Some indexEntry])) fs1 of
                  (Inl e, fs2) \<Rightarrow> (Inl e, fs2)
                | (Inr u, fs2) \<Rightarrow> bumpVersion fh fs2)))"

text \<open>What \<open>create_map\<close> builds from its arguments and the index it has read.\<close>

definition newMapData :: "createMapArgs \<Rightarrow> RPGMap" where
  "newMapData args =
     (createDefaultMap (createMapArgs.width args) (createMapArgs.height args))
       \<lparr>RPGMap.displayName := createMapArgs.displayName args,
        RPGMap.tilesetId := createMapArgs.tilesetId args,
        RPGMap.scrollType := createMapArgs.scrollType args,
        encounterStep := encounterSteps args\<rparr>"

definition newMapInfo :: "createMapArgs \<Rightarrow> RPGMapInfo option list \<Rightarrow> RPGMapInfo" where
  "newMapInfo args mapInfos =
     \<lparr>RPGMapInfo.id = nextMapId mapInfos, RPGMapInfo.name = createMapArgs.name args,
      RPGMapInfo.parentId = createMapArgs.parentId args, expanded = False, scrollX = 0,
      scrollY = 0, order = maxOrder mapInfos + 1\<rparr>"

definition create_map ::
  "FileHandler \<Rightarrow> createMapArgs \<Rightarrow> filesystem \<Rightarrow> unit tool_result \<times> filesystem" where
  "create_map fh args fs =
     (case readMapInfos fh fs of
        Inl e \<Rightarrow> (caught e, fs)
      | Inr mapInfos \<Rightarrow>
          let newId = nextMapId mapInfos;
              mapData = newMapData args;
              mapInfo = newMapInfo args mapInfos
          in case writeMap fh newId mapData mapInfo fs of
               (Inl e, fs') \<Rightarrow> (caught e, fs')
             | (Inr u, fs') \<Rightarrow>
                 (success (''Created map '' @ dquote @ createMapArgs.name args @ dquote
                    @ '' with ID '' @ decimal newId @ '' (''
                    @ decimal (createMapArgs.width args) @ ''x''
                    @ decimal (createMapArgs.height args) @ '' tiles)''), fs'))"

record updateMapArgs =
  id :: nat
  displayName :: "string option"
  tilesetId :: "int option"
  encounterSteps :: "int option"


text \<open>
  The reading of the claim about the new ID: one more than the largest \<open>id\<close> among the
  descriptors the index holds (0 when it holds none), and one more than the largest \<open>order\<close>
  among them.
\<close>

definition spec_max_populated_id :: "RPGMapInfo option list \<Rightarrow> nat" where
  "spec_max_populated_id mapInfos =
     foldr max (map RPGMapInfo.id (map the (filter (\<lambda>m. m \<noteq> None) mapInfos))) 0"

definition spec_max_order :: "RPGMapInfo option list \<Rightarrow> int option" where
  "spec_max_order mapInfos =
     (case map order (map the (filter (\<lambda>m. m \<noteq> None) mapInfos)) of
        [] \<Rightarrow> None
      | x # xs \<Rightarrow> Some (foldr max xs x))"

section \<open>Plugin tools (tools/pluginTools.ts)\<close>

text \<open>
  The regular expressions of this file are sequences of quantified atoms: a literal
  character or the class \<open>\s\<close>, taken once, optionally (\<open>?\<close>), any number of times (\<open>*\<close>) or
  at least once (\<open>+\<close>). \<open>match_here\<close> matches at the start of the text, a quantifier taking
  as much as it can first and giving back when the rest fails; \<open>regex_test\<close> is
  \<open>RegExp.prototype.test\<close>: a match that starts anywhere in the text. With the flag \<open>i\<close> a literal matches the characters that have its
  upper-case form; the literals here are ASCII, for which that is the ASCII letter in
  either case.
\<close>

datatype atom = Chr char | Space

datatype quant = Once | Opt | Star | Plus

type_synonym regex = "(atom \<times> quant) list"

definition is_space :: "char \<Rightarrow> bool" where
  "is_space c = (c \<in> set [CHR 0x09, CHR 0x0A, CHR 0x0B, CHR 0x0C, CHR 0x0D, CHR 0x20, CHR 0xA0])"

definition canonicalize :: "char \<Rightarrow> char" where
  "canonicalize c =
     (case map_of (zip ''abcdefghijklmnopqrstuvwxyz'' ''ABCDEFGHIJKLMNOPQRSTUVWXYZ'') c of
        Some u \<Rightarrow> u
      | None \<Rightarrow> c)"

definition atom_matches :: "bool \<Rightarrow> atom \<Rightarrow> char \<Rightarrow> bool" where
  "atom_matches ignoreCase a c =
     (case a of
        Space \<Rightarrow> is_space c
      | Chr x \<Rightarrow> if ignoreCase then canonicalize x = canonicalize c else x = c)"

fun match_here :: "bool \<Rightarrow> regex \<Rightarrow> string \<Rightarrow> bool" where
  "match_here i [] s = True"
| "match_here i ((a, Once) # r) [] = False"
| "match_here i ((a, Once) # r) (c # cs) =
     (if atom_matches i a c then match_here i r cs else False)"
| "match_here i ((a, Opt) # r) [] = match_here i r []"
| "match_here i ((a, Opt) # r) (c # cs) =
     (if atom_matches i a c
      then (if match_here i r cs then True else match_here i r (c # cs))
      else match_here i r (c # cs))"
| "match_here i ((a, Star) # r) [] = match_here i r []"
| "match_here i ((a, Star) # r) (c # cs) =
     (if atom_matches i a c
      then (if match_here i ((a, Star) # r) cs then True else match_here i r (c # cs))
      else match_here i r (c # cs))"
| "match_here i ((a, Plus) # r) [] = False"
| "match_here i ((a, Plus) # r) (c # cs) =
     (if atom_matches i a c then match_here i ((a, Star) # r) cs else False)"

fun regex_test :: "bool \<Rightarrow> regex \<Rightarrow> string \<Rightarrow> bool" where
  "regex_test i r [] = match_here i r []"
| "regex_test i r (c # cs) = (if match_here i r (c # cs) then True else regex_test i r cs)"

definition lit :: "string \<Rightarrow> regex" where
  "lit s = map (\<lambda>c. (Chr c, Once)) s"

text \<open>\<open>/\/\*:\s*\n?\s*\*\s*@target\s+MZ/i\<close>\<close>

definition MZ_HEADER_REGEX :: regex where
  "MZ_HEADER_REGEX =
     lit ''/*:'' @ [(Space, Star), (Chr (CHR 0x0A), Opt), (Space, Star)] @ lit ''*''
       @ [(Space, Star)] @ lit ''@target'' @ [(Space, Plus)] @ lit ''MZ''"

definition createPluginHeader :: "string \<Rightarrow> string \<Rightarrow> string" where
  "createPluginHeader description' author' =
     ''/*:'' @ newline
     @ '' * @target MZ'' @ newline
     @ '' * @plugindesc '' @ description' @ newline
     @ '' * @author '' @ author' @ newline
     @ '' * @help'' @ newline
     @ '' * This plugin was installed via MCP server.'' @ newline
     @ '' */'' @ newline"

record installPluginArgs =
  filename :: string
  code :: string
  description :: string
  author :: string

definition finalCode :: "installPluginArgs \<Rightarrow> string" where
  "finalCode args =
     (if \<not> regex_test True MZ_HEADER_REGEX (installPluginArgs.code args)
      then createPluginHeader (installPluginArgs.description args) (author args) @ newline
             @ installPluginArgs.code args
      else installPluginArgs.code args)"






section \<open>Requests\<close>







section \<open>Example project\<close>

definition demo_handler :: FileHandler where
  "demo_handler = \<lparr>projectPath = ''/game'', enginePath = None\<rparr>"

definition demo_system :: RPGSystem where
  "demo_system = \<lparr>gameTitle = ''Demo'', versionId = 7, locale = ''en_US'', partyMembers = [1],
     currencyUnit = ''G'', startMapId = 1, startX = 0, startY = 0\<rparr>"

definition demo_disk :: filesystem where
  "demo_disk = \<lparr>files = [''/game/data/Items.json'' \<mapsto> Json (ItemsDoc [None]),
                          ''/game/data/System.json'' \<mapsto> Json (SystemDoc demo_system)],
                 denied = {}\<rparr>"

definition demo_potion :: RPGItem where
  "demo_potion = (createDefaultItem 1)\<lparr>RPGItem.name := Str ''Potion''\<rparr>"

definition demo_elixir :: RPGItem where
  "demo_elixir = (createDefaultItem 3)\<lparr>RPGItem.name := Str ''Elixir''\<rparr>"

text \<open>An items collection whose record 2 has the empty name.\<close>

definition demo_items :: "RPGItem option list" where
  "demo_items = [None, Some demo_potion, Some (createDefaultItem 2), Some demo_elixir]"

text \<open>
  An items file as \<open>JSON.parse\<close> may hand it over: record 2 is an object without a \<open>name\<close>, and
  the \<open>name\<close> of record 3 is the number 5.
\<close>

definition demo_nameless :: RPGItem where
  "demo_nameless = (createDefaultItem 2)\<lparr>RPGItem.name := Undefined\<rparr>"

definition demo_numbered :: RPGItem where
  "demo_numbered = (createDefaultItem 3)\<lparr>RPGItem.name := NonString ''5''\<rparr>"

definition demo_loose_items :: "RPGItem option list" where
  "demo_loose_items = [None, Some demo_potion, Some demo_nameless, Some demo_numbered]"

definition demo_map_info :: "nat \<Rightarrow> int \<Rightarrow> RPGMapInfo" where
  "demo_map_info i ord =
     \<lparr>RPGMapInfo.id = i, RPGMapInfo.name = ''MAP'', RPGMapInfo.parentId = 0, expanded = False,
      scrollX = 0, scrollY = 0, order = ord\<rparr>"

text \<open>A map index of length 4 that ends in an absence-marker.\<close>

definition demo_map_index :: "RPGMapInfo option list" where
  "demo_map_index = [None, Some (demo_map_info 1 1), Some (demo_map_info 2 2), None]"

definition demo_project :: filesystem where
  "demo_project =
     \<lparr>files = [''/game/data/Items.json'' \<mapsto> Json (ItemsDoc demo_items),
               ''/game/data/Skills.json'' \<mapsto> Json (SkillsDoc [None]),
               ''/game/data/States.json'' \<mapsto> Json (StatesDoc [None, None]),
               ''/game/data/Weapons.json'' \<mapsto> Json (WeaponsDoc [None]),
               ''/game/data/Armors.json'' \<mapsto> Json (ArmorsDoc [None]),
               ''/game/data/Actors.json'' \<mapsto> Json (ActorsDoc [None]),
               ''/game/data/Classes.json'' \<mapsto> Json (ClassesDoc [None]),
               ''/game/data/Enemies.json'' \<mapsto> Json (EnemiesDoc [None]),
               ''/game/data/MapInfos.json'' \<mapsto> Json (MapInfosDoc demo_map_index),
               ''/game/data/System.json'' \<mapsto> Json (SystemDoc demo_system)],
      denied = {}\<rparr>"

definition demo_loose_project :: filesystem where
  "demo_loose_project =
     demo_project\<lparr>files := (files demo_project)
       (''/game/data/Items.json'' \<mapsto> Json (ItemsDoc demo_loose_items))\<rparr>"

text \<open>Arguments for one call of each create tool; the item is the one of the spec's scenario.\<close>

definition demo_item_args :: createItemArgs where
  "demo_item_args =
     \<lparr>createItemArgs.name = ''Tonic'', createItemArgs.description = ''Restores HP'',
      createItemArgs.price = 50, createItemArgs.type = ''regular'', hpRecoveryPercent = 50,
      hpRecoveryFixed = 0, mpRecoveryPercent = 0, mpRecoveryFixed = 0, addStateId = 7,
      createItemArgs.iconIndex = 176\<rparr>"

definition demo_skill_args :: createSkillArgs where
  "demo_skill_args =
     \<lparr>createSkillArgs.name = ''Fire'', createSkillArgs.description = ''Burns'',
      createSkillArgs.mpCost = 5, createSkillArgs.tpCost = 0, createSkillArgs.iconIndex = 64,
      createSkillArgs.scope = 1, damageType = 1, damageFormula = ''a.mat * 2''\<rparr>"

definition demo_state_args :: createStateArgs where
  "demo_state_args =
     \<lparr>createStateArgs.name = ''Mana Regen'', createStateArgs.iconIndex = 14,
      createStateArgs.restriction = 0, createStateArgs.priority = 50,
      createStateArgs.minTurns = 3, createStateArgs.maxTurns = 5,
      createStateArgs.autoRemovalTiming = 0, createStateArgs.chanceByDamage = 0,
      createStateArgs.removeAtBattleEnd = True, regenerateMpRate = 10\<rparr>"

definition demo_weapon_args :: createWeaponArgs where
  "demo_weapon_args =
     \<lparr>createWeaponArgs.name = ''Lascadora'', createWeaponArgs.description = ''Fire sword'',
      createWeaponArgs.price = 800, createWeaponArgs.wtypeId = 2, attack = 10,
      createWeaponArgs.elementId = 2, createWeaponArgs.iconIndex = 97,
      createWeaponArgs.animationId = 6\<rparr>"

definition demo_armor_args :: createArmorArgs where
  "demo_armor_args =
     \<lparr>createArmorArgs.name = ''Test Shield'', createArmorArgs.description = ''A shield'',
      createArmorArgs.price = 500, createArmorArgs.atypeId = 1, createArmorArgs.etypeId = 2,
      createArmorArgs.def = 20, createArmorArgs.mdf = 0, createArmorArgs.agi = 0,
      createArmorArgs.iconIndex = 0\<rparr>"

definition demo_actor_args :: createActorArgs where
  "demo_actor_args =
     \<lparr>createActorArgs.name = ''Test Hero'', createActorArgs.nickname = ''Tester'',
      createActorArgs.classId = 1, createActorArgs.initialLevel = 5,
      createActorArgs.maxLevel = 99, createActorArgs.profile = [],
      createActorArgs.characterName = [], createActorArgs.characterIndex = 0,
      createActorArgs.faceName = [], createActorArgs.faceIndex = 0\<rparr>"

definition demo_class_args :: createClassArgs where
  "demo_class_args =
     \<lparr>createClassArgs.name = ''Test Class'', expBase = 20, expAccel = 20,
      createClassArgs.maxHp = 450, createClassArgs.maxMp = 90, createClassArgs.atk = 16,
      createClassArgs.def = 16\<rparr>"

definition demo_enemy_args :: createEnemyArgs where
  "demo_enemy_args =
     \<lparr>createEnemyArgs.name = ''Test Goblin'', createEnemyArgs.maxHp = 500,
      createEnemyArgs.maxMp = 0, createEnemyArgs.atk = 50, createEnemyArgs.def = 10, mat = 10,
      createEnemyArgs.mdf = 10, createEnemyArgs.agi = 10, luk = 10, createEnemyArgs.exp = 100,
      createEnemyArgs.gold = 50, createEnemyArgs.battlerName = None,
      createEnemyArgs.battlerHue = 0\<rparr>"

definition demo_unnamed_args :: createItemArgs where
  "demo_unnamed_args = demo_item_args\<lparr>createItemArgs.name := []\<rparr>"

text \<open>The map of the spec's scenario: 20 by 15 tiles.\<close>

definition demo_map_args :: createMapArgs where
  "demo_map_args =
     \<lparr>createMapArgs.name = ''Cave'', createMapArgs.displayName = ''The Cave'',
      createMapArgs.width = 20, createMapArgs.height = 15, createMapArgs.tilesetId = 1,
      createMapArgs.scrollType = 0, encounterSteps = 30, createMapArgs.parentId = 0\<rparr>"

text \<open>The same project with a map index of length 3 that ends in a descriptor.\<close>

definition demo_full_index :: "RPGMapInfo option list" where
  "demo_full_index = [None, Some (demo_map_info 1 1), Some (demo_map_info 2 2)]"

definition demo_project_full_index :: filesystem where
  "demo_project_full_index =
     demo_project\<lparr>files := (files demo_project)
       (''/game/data/MapInfos.json'' \<mapsto> Json (MapInfosDoc demo_full_index))\<rparr>"









section \<open>Paths\<close>

lemmas fh_defs = resolvePath_def path_isAbsolute_def path_join_def exists_def backup_def
  writeJson_def readJson_def atomicWrite_def Let_def

lemma resolvePath_systemFile:
  "resolvePath fh systemFile = projectPath fh @ ''/data/System.json''"
  by (simp add: resolvePath_def path_isAbsolute_def path_join_def systemFile_def)

lemma systemFile_not_bak: "resolvePath fh systemFile \<noteq> p @ ''.bak''"
proof
  assume "resolvePath fh systemFile = p @ ''.bak''"
  then have "last (resolvePath fh systemFile) = last (p @ ''.bak'')" by simp
  then show False by (simp add: resolvePath_systemFile)
qed

lemma data_eq_systemFile:
  "resolvePath fh (''data/'' @ f) = resolvePath fh systemFile \<longleftrightarrow> f = ''System.json''"
  by (simp add: resolvePath_def path_isAbsolute_def path_join_def systemFile_def)

section \<open>The atomic write\<close>

lemma atomicWrite_Inr:
  assumes "atomicWrite fh T d fs = (Inr u, fs')"
  shows "files fs' = (if files fs (resolvePath fh T) = None then files fs
                      else (files fs)(resolvePath fh T @ ''.bak'' := files fs (resolvePath fh T)))
                     (resolvePath fh T \<mapsto> Json d)"
    and "denied fs' = denied fs"
  using assms
  by (auto simp: atomicWrite_def exists_def backup_def writeJson_def Let_def
           split: if_splits option.splits)


lemma atomicWrite_other:
  assumes "atomicWrite fh T d fs = (r, fs')"
    and "p \<noteq> resolvePath fh T" and "p \<noteq> resolvePath fh T @ ''.bak''"
  shows "files fs' p = files fs p"
  using assms
  by (auto simp: atomicWrite_def exists_def backup_def writeJson_def Let_def
           split: if_splits option.splits)

lemma atomicWrite_backup_failure:
  assumes "exists fh T fs" and "fst (backup fh T fs) = Inl e"
  shows "atomicWrite fh T d fs = (Inl (WriteFailure e), fs)"
  using assms
  by (auto simp: atomicWrite_def backup_def Let_def split: option.splits if_splits)

text \<open>
  C1 (backup fidelity). A successful atomic write to a file \<open>T\<close> that already exists leaves
  in \<open>T.bak\<close> exactly the content \<open>T\<close> had before the write (whatever backup was there
  before), and in \<open>T\<close> the new document.
\<close>

theorem backup_fidelity:
  assumes "files fs (resolvePath fh T) = Some old"
    and "atomicWrite fh T new fs = (Inr (), fs')"
  shows "files fs' (resolvePath fh T @ ''.bak'') = Some old
       \<and> files fs' (resolvePath fh T) = Some (Json new)"
  using atomicWrite_Inr(1)[OF assms(2)] assms(1) by simp

theorem backup_fidelity_witness:
  "files demo_disk (resolvePath demo_handler ''data/Items.json'') = Some (Json (ItemsDoc [None]))
   \<and> fst (atomicWrite demo_handler ''data/Items.json'' (ItemsDoc [None, None]) demo_disk) = Inr ()
   \<and> files (snd (atomicWrite demo_handler ''data/Items.json'' (ItemsDoc [None, None]) demo_disk))
         ''/game/data/Items.json.bak'' = Some (Json (ItemsDoc [None]))
   \<and> files (snd (atomicWrite demo_handler ''data/Items.json'' (ItemsDoc [None, None]) demo_disk))
         ''/game/data/Items.json'' = Some (Json (ItemsDoc [None, None]))"
proof -
  let ?w = "atomicWrite demo_handler ''data/Items.json'' (ItemsDoc [None, None]) demo_disk"
  have old: "files demo_disk (resolvePath demo_handler ''data/Items.json'')
             = Some (Json (ItemsDoc [None]))"
    by (simp add: demo_disk_def demo_handler_def fh_defs)
  have ok: "fst ?w = Inr ()"
    by (simp add: demo_disk_def demo_handler_def fh_defs)
  then have run: "?w = (Inr (), snd ?w)"
    by (metis prod.collapse)
  have path: "resolvePath demo_handler ''data/Items.json'' = ''/game/data/Items.json''"
    by (simp add: demo_handler_def fh_defs)
  from backup_fidelity[OF old run] old ok show ?thesis
    by (simp add: path)
qed

text \<open>
  The same for the whole \<open>writeToDatabase\<close> of a collection file: the version bump that
  follows the write touches the system file and its backup only.
\<close>

lemma writeToDatabase_files:
  assumes "writeToDatabase fh fname new fs = (Inr u, fs')"
  shows "\<exists>fs1. atomicWrite fh (''data/'' @ fname) new fs = (Inr (), fs1)
           \<and> (\<forall>p. p \<noteq> resolvePath fh systemFile \<and> p \<noteq> resolvePath fh systemFile @ ''.bak''
                 \<longrightarrow> files fs' p = files fs1 p)"
proof -
  from assms obtain u1 fs1 where
    aw: "atomicWrite fh (''data/'' @ fname) new fs = (Inr u1, fs1)"
    and bv: "bumpVersion fh fs1 = (Inr u, fs')"
    by (auto simp: writeToDatabase_def split: prod.splits sum.splits)
  from bv obtain s where
    sw: "atomicWrite fh systemFile (SystemDoc (s\<lparr>versionId := versionId s + 1\<rparr>)) fs1
         = (Inr u, fs')"
    by (auto simp: bumpVersion_def split: sum.splits json_doc.splits)
  show ?thesis
    using aw atomicWrite_other[OF sw] by auto
qed

lemma writeToDatabase_backup:
  assumes "files fs (resolvePath fh (''data/'' @ fname)) = Some old"
    and "writeToDatabase fh fname new fs = (Inr u, fs')"
    and "fname \<noteq> ''System.json''"
  shows "files fs' (resolvePath fh (''data/'' @ fname) @ ''.bak'') = Some old"
proof -
  let ?T = "resolvePath fh (''data/'' @ fname)"
  from writeToDatabase_files[OF assms(2)] obtain fs1 where
    aw: "atomicWrite fh (''data/'' @ fname) new fs = (Inr (), fs1)"
    and same: "\<And>p. p \<noteq> resolvePath fh systemFile \<Longrightarrow> p \<noteq> resolvePath fh systemFile @ ''.bak''
                 \<Longrightarrow> files fs' p = files fs1 p"
    by blast
  have "?T @ ''.bak'' \<noteq> resolvePath fh systemFile"
    using systemFile_not_bak[of fh ?T] by metis
  moreover have "?T @ ''.bak'' \<noteq> resolvePath fh systemFile @ ''.bak''"
    using assms(3) data_eq_systemFile[of fh fname] by (simp del: append.simps)
  moreover have "files fs1 (?T @ ''.bak'') = Some old"
    using atomicWrite_Inr(1)[OF aw] assms(1) by simp
  ultimately show ?thesis
    using same by simp
qed

lemma writeToDatabase_written:
  assumes "writeToDatabase fh fname new fs = (Inr u, fs')"
    and "fname \<noteq> ''System.json''" and "fname \<noteq> ''System.json.bak''"
  shows "files fs' (resolvePath fh (''data/'' @ fname)) = Some (Json new)"
proof -
  let ?T = "resolvePath fh (''data/'' @ fname)"
  from writeToDatabase_files[OF assms(1)] obtain fs1 where
    aw: "atomicWrite fh (''data/'' @ fname) new fs = (Inr (), fs1)"
    and same: "\<And>p. p \<noteq> resolvePath fh systemFile \<Longrightarrow> p \<noteq> resolvePath fh systemFile @ ''.bak''
                 \<Longrightarrow> files fs' p = files fs1 p"
    by blast
  have "?T \<noteq> resolvePath fh systemFile"
    using assms(2) data_eq_systemFile[of fh fname] by (simp del: append.simps)
  moreover have "?T \<noteq> resolvePath fh systemFile @ ''.bak''"
    using assms(3)
    by (simp add: resolvePath_def path_isAbsolute_def path_join_def systemFile_def)
  moreover have "files fs1 ?T = Some (Json new)"
    using atomicWrite_Inr(1)[OF aw] by simp
  ultimately show ?thesis
    using same by simp
qed

text \<open>
  C2 (a failed backup aborts the write). When the target exists and the backup copy fails
  with \<open>e\<close>, the write reports \<open>WriteFailure e\<close> and the disk, the target included, is as it
  was before the operation.
\<close>

theorem backup_failure_aborts:
  assumes "exists fh T fs" and "fst (backup fh T fs) = Inl e"
  shows "atomicWrite fh T d fs = (Inl (WriteFailure e), fs)
       \<and> files (snd (atomicWrite fh T d fs)) (resolvePath fh T) = files fs (resolvePath fh T)"
  using atomicWrite_backup_failure[OF assms] by simp

theorem backup_failure_aborts_witness:
  "exists demo_handler ''data/Items.json'' (demo_disk\<lparr>denied := {''/game/data/Items.json.bak''}\<rparr>)
   \<and> fst (backup demo_handler ''data/Items.json''
            (demo_disk\<lparr>denied := {''/game/data/Items.json.bak''}\<rparr>)) = Inl EACCES
   \<and> atomicWrite demo_handler ''data/Items.json'' (ItemsDoc [None, None])
        (demo_disk\<lparr>denied := {''/game/data/Items.json.bak''}\<rparr>)
       = (Inl (WriteFailure EACCES), demo_disk\<lparr>denied := {''/game/data/Items.json.bak''}\<rparr>)"
proof -
  let ?fs = "demo_disk\<lparr>denied := {''/game/data/Items.json.bak''}\<rparr>"
  have ex: "exists demo_handler ''data/Items.json'' ?fs"
    by (simp add: demo_disk_def demo_handler_def fh_defs)
  have bk: "fst (backup demo_handler ''data/Items.json'' ?fs) = Inl EACCES"
    by (simp add: demo_disk_def demo_handler_def fh_defs)
  from backup_failure_aborts[OF ex bk] ex bk show ?thesis by simp
qed

text \<open>The collection write of the tools aborts the same way, before any version bump.\<close>

lemma writeToDatabase_backup_failure:
  assumes "exists fh (''data/'' @ fname) fs"
    and "fst (backup fh (''data/'' @ fname) fs) = Inl e"
  shows "writeToDatabase fh fname d fs = (Inl (WriteFailure e), fs)"
  using atomicWrite_backup_failure[OF assms] by (simp add: writeToDatabase_def)

section \<open>The version counter\<close>






section \<open>Resizing a collection\<close>

lemma shrink_rejects:
  "\<exists>i. t \<le> i \<and> i < length xs \<and> xs ! i \<noteq> None \<Longrightarrow> \<exists>k. shrink t xs = Inl k"
proof (induction t xs rule: shrink.induct)
  case (1 t xs)
  then obtain i where i: "t \<le> i" "i < length xs" "xs ! i \<noteq> None" by blast
  then have len: "length xs > t" by simp
  show ?case
  proof (cases "last xs \<noteq> None")
    case True
    with len show ?thesis by (subst shrink.simps) simp
  next
    case False
    from len have ne: "xs \<noteq> []" by auto
    with False i have "i \<noteq> length xs - 1"
      by (auto simp: last_conv_nth)
    with i have i': "i < length (butlast xs)" by simp
    then have "butlast xs ! i = xs ! i" by (simp add: nth_butlast)
    with i i' have "\<exists>j. t \<le> j \<and> j < length (butlast xs) \<and> butlast xs ! j \<noteq> None" by auto
    from "1.IH"[OF len _ this] False obtain k where "shrink t (butlast xs) = Inl k" by auto
    with len False show ?thesis by (subst shrink.simps) simp
  qed
qed

lemma resize_rejects:
  assumes "limit + 1 \<le> i" "i < length xs" "xs ! i \<noteq> None"
  shows "\<exists>k. resize limit xs = Inl k"
proof -
  from assms have "\<exists>k. shrink (limit + 1) xs = Inl k"
    by (intro shrink_rejects) auto
  with assms show ?thesis by (auto simp: resize_def Let_def)
qed

lemma resizeDoc_rejects:
  assumes "slots doc = Some bs" "limit + 1 \<le> i" "i < length bs" "bs ! i"
  shows "\<exists>k. resizeDoc limit doc = Some (Inl k)"
proof (cases doc)
  case (ItemsDoc xs)
  with assms resize_rejects[of limit i xs] show ?thesis by auto
next
  case (WeaponsDoc xs)
  with assms resize_rejects[of limit i xs] show ?thesis by auto
next
  case (ArmorsDoc xs)
  with assms resize_rejects[of limit i xs] show ?thesis by auto
next
  case (SkillsDoc xs)
  with assms resize_rejects[of limit i xs] show ?thesis by auto
next
  case (ActorsDoc xs)
  with assms resize_rejects[of limit i xs] show ?thesis by auto
next
  case (ClassesDoc xs)
  with assms resize_rejects[of limit i xs] show ?thesis by auto
next
  case (EnemiesDoc xs)
  with assms resize_rejects[of limit i xs] show ?thesis by auto
next
  case (StatesDoc xs)
  with assms resize_rejects[of limit i xs] show ?thesis by auto
next
  case (UnknownsDoc xs)
  with assms resize_rejects[of limit i xs] show ?thesis by auto
next
  case (MapInfosDoc xs)
  with assms resize_rejects[of limit i xs] show ?thesis by auto
next
  case (MapDoc m)
  with assms show ?thesis by simp
next
  case (SystemDoc s)
  with assms show ?thesis by simp
qed

text \<open>
  C4 (shrink rejection). When some position at or beyond the new length \<open>limit + 1\<close> of the
  collection holds a record, \<open>set_database_limit\<close> answers with the failure flag set and
  writes nothing: the disk is the one it started from, and the collection file reads as
  before.
\<close>

theorem shrink_rejection:
  assumes "map_of databaseFiles database = Some fname"
    and "readJson fh (''data/'' @ fname) fs = Inr doc"
    and "slots doc = Some bs"
    and "limit + 1 \<le> i" and "i < length bs" and "bs ! i"
  shows "isError (fst (set_database_limit fh database limit fs))
       \<and> snd (set_database_limit fh database limit fs) = fs
       \<and> readJson fh (''data/'' @ fname) (snd (set_database_limit fh database limit fs)) = Inr doc"
proof -
  from resizeDoc_rejects[OF assms(3-6)] obtain k where "resizeDoc limit doc = Some (Inl k)" ..
  with assms(1-3) show ?thesis
    by (simp add: set_database_limit_def failure_def del: append.simps)
qed


lemmas demo_defs = demo_project_def demo_handler_def demo_items_def demo_potion_def
  demo_elixir_def demo_map_index_def demo_map_info_def demo_system_def

theorem shrink_rejection_witness:
  "map_of databaseFiles ''items'' = Some ''Items.json''
   \<and> readJson demo_handler ''data/Items.json'' demo_project = Inr (ItemsDoc demo_items)
   \<and> slots (ItemsDoc demo_items) = Some [False, True, True, True]
   \<and> isError (fst (set_database_limit demo_handler ''items'' 2 demo_project))
   \<and> snd (set_database_limit demo_handler ''items'' 2 demo_project) = demo_project"
proof -
  have f: "map_of databaseFiles ''items'' = Some ''Items.json''"
    by (simp add: databaseFiles_def)
  have r: "readJson demo_handler (''data/'' @ ''Items.json'') demo_project = Inr (ItemsDoc demo_items)"
    by (simp add: demo_project_def demo_handler_def fh_defs)
  have s: "slots (ItemsDoc demo_items) = Some [False, True, True, True]"
    by (simp add: demo_items_def)
  from shrink_rejection[OF f r s, of 2 3] f r s show ?thesis
    by simp
qed

section \<open>Updates\<close>

text \<open>
  C9 (update of a missing record). When the ID is at or beyond the length of the collection,
  or the slot at the ID is \<open>null\<close>, \<open>update_item\<close> and \<open>update_state\<close> answer with the failure
  flag set and write nothing: the disk is unchanged.
\<close>

theorem update_missing_rejected:
  "(readItems fh fs = Inr xs
      \<and> (updateItemArgs.id a \<ge> length xs \<or> xs ! updateItemArgs.id a = None)
    \<longrightarrow> isError (fst (update_item fh a fs)) \<and> snd (update_item fh a fs) = fs)
   \<and> (readStates fh fs = Inr ys
      \<and> (updateStateArgs.id b \<ge> length ys \<or> ys ! updateStateArgs.id b = None)
    \<longrightarrow> isError (fst (update_state fh b fs)) \<and> snd (update_state fh b fs) = fs)"
  by (auto simp: update_item_def update_state_def failure_def Let_def)

lemmas read_defs = readItems_def readSkills_def readStates_def readWeapons_def readArmors_def
  readActors_def readClasses_def readEnemies_def readMapInfos_def

theorem update_missing_rejected_witness:
  "readItems demo_handler demo_project = Inr demo_items
   \<and> length demo_items \<le> 7
   \<and> isError (fst (update_item demo_handler
         \<lparr>updateItemArgs.id = 7, updateItemArgs.name = Some ''Ether'',
          updateItemArgs.description = None, updateItemArgs.price = None,
          updateItemArgs.iconIndex = None\<rparr> demo_project))
   \<and> snd (update_item demo_handler
         \<lparr>updateItemArgs.id = 7, updateItemArgs.name = Some ''Ether'',
          updateItemArgs.description = None, updateItemArgs.price = None,
          updateItemArgs.iconIndex = None\<rparr> demo_project) = demo_project
   \<and> readStates demo_handler demo_project = Inr [None, None]
   \<and> [None, None :: RPGState option] ! 1 = None
   \<and> isError (fst (update_state demo_handler
         \<lparr>updateStateArgs.id = 1, updateStateArgs.name = Some ''Poison'',
          updateStateArgs.iconIndex = None, updateStateArgs.minTurns = None,
          updateStateArgs.maxTurns = None\<rparr> demo_project))
   \<and> snd (update_state demo_handler
         \<lparr>updateStateArgs.id = 1, updateStateArgs.name = Some ''Poison'',
          updateStateArgs.iconIndex = None, updateStateArgs.minTurns = None,
          updateStateArgs.maxTurns = None\<rparr> demo_project) = demo_project"
proof -
  let ?a = "\<lparr>updateItemArgs.id = 7, updateItemArgs.name = Some ''Ether'',
          updateItemArgs.description = None, updateItemArgs.price = None,
          updateItemArgs.iconIndex = None\<rparr>"
  let ?b = "\<lparr>updateStateArgs.id = 1, updateStateArgs.name = Some ''Poison'',
          updateStateArgs.iconIndex = None, updateStateArgs.minTurns = None,
          updateStateArgs.maxTurns = None\<rparr>"
  have i: "readItems demo_handler demo_project = Inr demo_items"
    by (simp add: read_defs demo_project_def demo_handler_def fh_defs)
  have s: "readStates demo_handler demo_project = Inr [None, None]"
    by (simp add: read_defs demo_project_def demo_handler_def fh_defs)
  have l: "length demo_items \<le> 7"
    by (simp add: demo_items_def)
  from update_missing_rejected[of demo_handler demo_project demo_items ?a "[None, None]" ?b] i s l
  show ?thesis
    by simp
qed

section \<open>Creating records\<close>

lemma writeAndReport_ok:
  assumes "writeAndReport fh f d msg fs = (res, fs')" and "\<not> isError res"
    and "f \<noteq> ''System.json''" and "f \<noteq> ''System.json.bak''"
  shows "readJson fh (''data/'' @ f) fs' = Inr d"
proof -
  from assms(1,2) obtain u where "writeToDatabase fh f d fs = (Inr u, fs')"
    by (auto simp: writeAndReport_def caught_def split: prod.splits sum.splits)
  from writeToDatabase_written[OF this assms(3,4)] show ?thesis
    by (simp add: readJson_def del: append.simps)
qed

lemma create_item_eq:
  assumes r: "readItems fh fs = Inr xs"
  shows "\<exists>r msg. RPGItem.id r = length xs
     \<and> create_item fh args fs
         = writeAndReport fh ''Items.json'' (ItemsDoc (xs @ [Some r])) msg fs"
  unfolding create_item_def r sum.case Let_def
  apply (rule exI, rule exI, rule conjI)
   prefer 2
   apply (rule refl)
  apply (simp add: createDefaultItem_def)
  done

lemma create_item_appends:
  assumes "readItems fh fs = Inr xs" and "create_item fh args fs = (res, fs')"
    and "\<not> isError res"
  shows "\<exists>r. readItems fh fs' = Inr (xs @ [Some r]) \<and> RPGItem.id r = length xs
           \<and> (\<exists>r'. (xs @ [Some r]) ! RPGItem.id r = Some r' \<and> RPGItem.id r' = RPGItem.id r)"
proof -
  from create_item_eq[OF assms(1), of args] assms(2) obtain r msg where
    r: "RPGItem.id r = length xs"
    and w: "writeAndReport fh ''Items.json'' (ItemsDoc (xs @ [Some r])) msg fs = (res, fs')"
    by auto
  from writeAndReport_ok[OF w assms(3)] have "readItems fh fs' = Inr (xs @ [Some r])"
    by (simp add: readItems_def)
  with r show ?thesis by simp
qed

lemma create_skill_eq:
  assumes r: "readSkills fh fs = Inr xs"
  shows "\<exists>r msg. RPGSkill.id r = length xs
     \<and> create_skill fh args fs
         = writeAndReport fh ''Skills.json'' (SkillsDoc (xs @ [Some r])) msg fs"
  unfolding create_skill_def r sum.case Let_def
  apply (rule exI, rule exI, rule conjI)
   prefer 2
   apply (rule refl)
  apply (simp add: createDefaultSkill_def)
  done

lemma create_skill_appends:
  assumes "readSkills fh fs = Inr xs" and "create_skill fh args fs = (res, fs')"
    and "\<not> isError res"
  shows "\<exists>r. readSkills fh fs' = Inr (xs @ [Some r]) \<and> RPGSkill.id r = length xs
           \<and> (\<exists>r'. (xs @ [Some r]) ! RPGSkill.id r = Some r' \<and> RPGSkill.id r' = RPGSkill.id r)"
proof -
  from create_skill_eq[OF assms(1), of args] assms(2) obtain r msg where
    r: "RPGSkill.id r = length xs"
    and w: "writeAndReport fh ''Skills.json'' (SkillsDoc (xs @ [Some r])) msg fs = (res, fs')"
    by auto
  from writeAndReport_ok[OF w assms(3)] have "readSkills fh fs' = Inr (xs @ [Some r])"
    by (simp add: readSkills_def)
  with r show ?thesis by simp
qed

lemma create_state_eq:
  assumes r: "readStates fh fs = Inr xs"
  shows "\<exists>r msg. RPGState.id r = length xs
     \<and> create_state fh args fs
         = writeAndReport fh ''States.json'' (StatesDoc (xs @ [Some r])) msg fs"
  unfolding create_state_def r sum.case Let_def
  apply (rule exI, rule exI, rule conjI)
   prefer 2
   apply (rule refl)
  apply (simp add: createDefaultState_def)
  done

lemma create_state_appends:
  assumes "readStates fh fs = Inr xs" and "create_state fh args fs = (res, fs')"
    and "\<not> isError res"
  shows "\<exists>r. readStates fh fs' = Inr (xs @ [Some r]) \<and> RPGState.id r = length xs
           \<and> (\<exists>r'. (xs @ [Some r]) ! RPGState.id r = Some r' \<and> RPGState.id r' = RPGState.id r)"
proof -
  from create_state_eq[OF assms(1), of args] assms(2) obtain r msg where
    r: "RPGState.id r = length xs"
    and w: "writeAndReport fh ''States.json'' (StatesDoc (xs @ [Some r])) msg fs = (res, fs')"
    by auto
  from writeAndReport_ok[OF w assms(3)] have "readStates fh fs' = Inr (xs @ [Some r])"
    by (simp add: readStates_def)
  with r show ?thesis by simp
qed

lemma create_weapon_eq:
  assumes r: "readWeapons fh fs = Inr xs"
  shows "\<exists>r msg. RPGWeapon.id r = length xs
     \<and> create_weapon fh args fs
         = writeAndReport fh ''Weapons.json'' (WeaponsDoc (xs @ [Some r])) msg fs"
  unfolding create_weapon_def r sum.case Let_def
  apply (rule exI, rule exI, rule conjI)
   prefer 2
   apply (rule refl)
  apply (simp add: createDefaultWeapon_def)
  done

lemma create_weapon_appends:
  assumes "readWeapons fh fs = Inr xs" and "create_weapon fh args fs = (res, fs')"
    and "\<not> isError res"
  shows "\<exists>r. readWeapons fh fs' = Inr (xs @ [Some r]) \<and> RPGWeapon.id r = length xs
           \<and> (\<exists>r'. (xs @ [Some r]) ! RPGWeapon.id r = Some r' \<and> RPGWeapon.id r' = RPGWeapon.id r)"
proof -
  from create_weapon_eq[OF assms(1), of args] assms(2) obtain r msg where
    r: "RPGWeapon.id r = length xs"
    and w: "writeAndReport fh ''Weapons.json'' (WeaponsDoc (xs @ [Some r])) msg fs = (res, fs')"
    by auto
  from writeAndReport_ok[OF w assms(3)] have "readWeapons fh fs' = Inr (xs @ [Some r])"
    by (simp add: readWeapons_def)
  with r show ?thesis by simp
qed

lemma create_armor_eq:
  assumes r: "readArmors fh fs = Inr xs"
  shows "\<exists>r msg. RPGArmor.id r = length xs
     \<and> create_armor fh args fs
         = writeAndReport fh ''Armors.json'' (ArmorsDoc (xs @ [Some r])) msg fs"
  unfolding create_armor_def r sum.case Let_def
  apply (rule exI, rule exI, rule conjI)
   prefer 2
   apply (rule refl)
  apply (simp add: createDefaultArmor_def)
  done

lemma create_armor_appends:
  assumes "readArmors fh fs = Inr xs" and "create_armor fh args fs = (res, fs')"
    and "\<not> isError res"
  shows "\<exists>r. readArmors fh fs' = Inr (xs @ [Some r]) \<and> RPGArmor.id r = length xs
           \<and> (\<exists>r'. (xs @ [Some r]) ! RPGArmor.id r = Some r' \<and> RPGArmor.id r' = RPGArmor.id r)"
proof -
  from create_armor_eq[OF assms(1), of args] assms(2) obtain r msg where
    r: "RPGArmor.id r = length xs"
    and w: "writeAndReport fh ''Armors.json'' (ArmorsDoc (xs @ [Some r])) msg fs = (res, fs')"
    by auto
  from writeAndReport_ok[OF w assms(3)] have "readArmors fh fs' = Inr (xs @ [Some r])"
    by (simp add: readArmors_def)
  with r show ?thesis by simp
qed

lemma create_actor_eq:
  assumes r: "readActors fh fs = Inr xs"
  shows "\<exists>r msg. RPGActor.id r = length xs
     \<and> create_actor fh args fs
         = writeAndReport fh ''Actors.json'' (ActorsDoc (xs @ [Some r])) msg fs"
  unfolding create_actor_def r sum.case Let_def
  apply (rule exI, rule exI, rule conjI)
   prefer 2
   apply (rule refl)
  apply (simp add: createDefaultActor_def)
  done

lemma create_actor_appends:
  assumes "readActors fh fs = Inr xs" and "create_actor fh args fs = (res, fs')"
    and "\<not> isError res"
  shows "\<exists>r. readActors fh fs' = Inr (xs @ [Some r]) \<and> RPGActor.id r = length xs
           \<and> (\<exists>r'. (xs @ [Some r]) ! RPGActor.id r = Some r' \<and> RPGActor.id r' = RPGActor.id r)"
proof -
  from create_actor_eq[OF assms(1), of args] assms(2) obtain r msg where
    r: "RPGActor.id r = length xs"
    and w: "writeAndReport fh ''Actors.json'' (ActorsDoc (xs @ [Some r])) msg fs = (res, fs')"
    by auto
  from writeAndReport_ok[OF w assms(3)] have "readActors fh fs' = Inr (xs @ [Some r])"
    by (simp add: readActors_def)
  with r show ?thesis by simp
qed

lemma create_class_eq:
  assumes r: "readClasses fh fs = Inr xs"
  shows "\<exists>r msg. RPGClass.id r = length xs
     \<and> create_class fh args fs
         = writeAndReport fh ''Classes.json'' (ClassesDoc (xs @ [Some r])) msg fs"
  unfolding create_class_def r sum.case Let_def
  apply (rule exI, rule exI, rule conjI)
   prefer 2
   apply (rule refl)
  apply (simp add: createDefaultClass_def)
  done

lemma create_class_appends:
  assumes "readClasses fh fs = Inr xs" and "create_class fh args fs = (res, fs')"
    and "\<not> isError res"
  shows "\<exists>r. readClasses fh fs' = Inr (xs @ [Some r]) \<and> RPGClass.id r = length xs
           \<and> (\<exists>r'. (xs @ [Some r]) ! RPGClass.id r = Some r' \<and> RPGClass.id r' = RPGClass.id r)"
proof -
  from create_class_eq[OF assms(1), of args] assms(2) obtain r msg where
    r: "RPGClass.id r = length xs"
    and w: "writeAndReport fh ''Classes.json'' (ClassesDoc (xs @ [Some r])) msg fs = (res, fs')"
    by auto
  from writeAndReport_ok[OF w assms(3)] have "readClasses fh fs' = Inr (xs @ [Some r])"
    by (simp add: readClasses_def)
  with r show ?thesis by simp
qed

lemma create_enemy_eq:
  assumes r: "readEnemies fh fs = Inr xs"
  shows "\<exists>r msg. RPGEnemy.id r = length xs
     \<and> create_enemy fh args fs
         = writeAndReport fh ''Enemies.json'' (EnemiesDoc (xs @ [Some r])) msg fs"
  unfolding create_enemy_def r sum.case Let_def
  apply (rule exI, rule exI, rule conjI)
   prefer 2
   apply (rule refl)
  apply (simp add: createDefaultEnemy_def split: option.split)
  done

lemma create_enemy_appends:
  assumes "readEnemies fh fs = Inr xs" and "create_enemy fh args fs = (res, fs')"
    and "\<not> isError res"
  shows "\<exists>r. readEnemies fh fs' = Inr (xs @ [Some r]) \<and> RPGEnemy.id r = length xs
           \<and> (\<exists>r'. (xs @ [Some r]) ! RPGEnemy.id r = Some r' \<and> RPGEnemy.id r' = RPGEnemy.id r)"
proof -
  from create_enemy_eq[OF assms(1), of args] assms(2) obtain r msg where
    r: "RPGEnemy.id r = length xs"
    and w: "writeAndReport fh ''Enemies.json'' (EnemiesDoc (xs @ [Some r])) msg fs = (res, fs')"
    by auto
  from writeAndReport_ok[OF w assms(3)] have "readEnemies fh fs' = Inr (xs @ [Some r])"
    by (simp add: readEnemies_def)
  with r show ?thesis by simp
qed

text \<open>
  C5 (append with the length as ID). For each of the eight create tools: when the call
  succeeds on a collection \<open>xs\<close>, the collection on disk afterwards is \<open>xs\<close> with one record
  appended, the \<open>id\<close> of that record is the length of \<open>xs\<close>, and the entry of the written
  collection at that \<open>id\<close> is a record with that \<open>id\<close>.
\<close>

theorem create_appends_at_length:
  "((readItems fh fs = Inr items \<and> create_item fh item_args fs = (item_res, item_fs) \<and> \<not> isError item_res)
      \<longrightarrow> (\<exists>r. readItems fh item_fs = Inr (items @ [Some r]) \<and> RPGItem.id r = length items
          \<and> (\<exists>r'. (items @ [Some r]) ! RPGItem.id r = Some r' \<and> RPGItem.id r' = RPGItem.id r)))
   \<and> ((readSkills fh fs = Inr skills \<and> create_skill fh skill_args fs = (skill_res, skill_fs) \<and> \<not> isError skill_res)
      \<longrightarrow> (\<exists>r. readSkills fh skill_fs = Inr (skills @ [Some r]) \<and> RPGSkill.id r = length skills
          \<and> (\<exists>r'. (skills @ [Some r]) ! RPGSkill.id r = Some r' \<and> RPGSkill.id r' = RPGSkill.id r)))
   \<and> ((readStates fh fs = Inr states \<and> create_state fh state_args fs = (state_res, state_fs) \<and> \<not> isError state_res)
      \<longrightarrow> (\<exists>r. readStates fh state_fs = Inr (states @ [Some r]) \<and> RPGState.id r = length states
          \<and> (\<exists>r'. (states @ [Some r]) ! RPGState.id r = Some r' \<and> RPGState.id r' = RPGState.id r)))
   \<and> ((readWeapons fh fs = Inr weapons \<and> create_weapon fh weapon_args fs = (weapon_res, weapon_fs) \<and> \<not> isError weapon_res)
      \<longrightarrow> (\<exists>r. readWeapons fh weapon_fs = Inr (weapons @ [Some r]) \<and> RPGWeapon.id r = length weapons
          \<and> (\<exists>r'. (weapons @ [Some r]) ! RPGWeapon.id r = Some r' \<and> RPGWeapon.id r' = RPGWeapon.id r)))
   \<and> ((readArmors fh fs = Inr armors \<and> create_armor fh armor_args fs = (armor_res, armor_fs) \<and> \<not> isError armor_res)
      \<longrightarrow> (\<exists>r. readArmors fh armor_fs = Inr (armors @ [Some r]) \<and> RPGArmor.id r = length armors
          \<and> (\<exists>r'. (armors @ [Some r]) ! RPGArmor.id r = Some r' \<and> RPGArmor.id r' = RPGArmor.id r)))
   \<and> ((readActors fh fs = Inr actors \<and> create_actor fh actor_args fs = (actor_res, actor_fs) \<and> \<not> isError actor_res)
      \<longrightarrow> (\<exists>r. readActors fh actor_fs = Inr (actors @ [Some r]) \<and> RPGActor.id r = length actors
          \<and> (\<exists>r'. (actors @ [Some r]) ! RPGActor.id r = Some r' \<and> RPGActor.id r' = RPGActor.id r)))
   \<and> ((readClasses fh fs = Inr classes \<and> create_class fh class_args fs = (class_res, class_fs) \<and> \<not> isError class_res)
      \<longrightarrow> (\<exists>r. readClasses fh class_fs = Inr (classes @ [Some r]) \<and> RPGClass.id r = length classes
          \<and> (\<exists>r'. (classes @ [Some r]) ! RPGClass.id r = Some r' \<and> RPGClass.id r' = RPGClass.id r)))
   \<and> ((readEnemies fh fs = Inr enemies \<and> create_enemy fh enemy_args fs = (enemy_res, enemy_fs) \<and> \<not> isError enemy_res)
      \<longrightarrow> (\<exists>r. readEnemies fh enemy_fs = Inr (enemies @ [Some r]) \<and> RPGEnemy.id r = length enemies
          \<and> (\<exists>r'. (enemies @ [Some r]) ! RPGEnemy.id r = Some r' \<and> RPGEnemy.id r' = RPGEnemy.id r)))"
proof (intro conjI impI)
  assume "readItems fh fs = Inr items \<and> create_item fh item_args fs = (item_res, item_fs) \<and> \<not> isError item_res"
  then show "(\<exists>r. readItems fh item_fs = Inr (items @ [Some r]) \<and> RPGItem.id r = length items           \<and> (\<exists>r'. (items @ [Some r]) ! RPGItem.id r = Some r' \<and> RPGItem.id r' = RPGItem.id r))"
    using create_item_appends[of fh fs items item_args item_res item_fs] by blast
next
  assume "readSkills fh fs = Inr skills \<and> create_skill fh skill_args fs = (skill_res, skill_fs) \<and> \<not> isError skill_res"
  then show "(\<exists>r. readSkills fh skill_fs = Inr (skills @ [Some r]) \<and> RPGSkill.id r = length skills           \<and> (\<exists>r'. (skills @ [Some r]) ! RPGSkill.id r = Some r' \<and> RPGSkill.id r' = RPGSkill.id r))"
    using create_skill_appends[of fh fs skills skill_args skill_res skill_fs] by blast
next
  assume "readStates fh fs = Inr states \<and> create_state fh state_args fs = (state_res, state_fs) \<and> \<not> isError state_res"
  then show "(\<exists>r. readStates fh state_fs = Inr (states @ [Some r]) \<and> RPGState.id r = length states           \<and> (\<exists>r'. (states @ [Some r]) ! RPGState.id r = Some r' \<and> RPGState.id r' = RPGState.id r))"
    using create_state_appends[of fh fs states state_args state_res state_fs] by blast
next
  assume "readWeapons fh fs = Inr weapons \<and> create_weapon fh weapon_args fs = (weapon_res, weapon_fs) \<and> \<not> isError weapon_res"
  then show "(\<exists>r. readWeapons fh weapon_fs = Inr (weapons @ [Some r]) \<and> RPGWeapon.id r = length weapons           \<and> (\<exists>r'. (weapons @ [Some r]) ! RPGWeapon.id r = Some r' \<and> RPGWeapon.id r' = RPGWeapon.id r))"
    using create_weapon_appends[of fh fs weapons weapon_args weapon_res weapon_fs] by blast
next
  assume "readArmors fh fs = Inr armors \<and> create_armor fh armor_args fs = (armor_res, armor_fs) \<and> \<not> isError armor_res"
  then show "(\<exists>r. readArmors fh armor_fs = Inr (armors @ [Some r]) \<and> RPGArmor.id r = length armors           \<and> (\<exists>r'. (armors @ [Some r]) ! RPGArmor.id r = Some r' \<and> RPGArmor.id r' = RPGArmor.id r))"
    using create_armor_appends[of fh fs armors armor_args armor_res armor_fs] by blast
next
  assume "readActors fh fs = Inr actors \<and> create_actor fh actor_args fs = (actor_res, actor_fs) \<and> \<not> isError actor_res"
  then show "(\<exists>r. readActors fh actor_fs = Inr (actors @ [Some r]) \<and> RPGActor.id r = length actors           \<and> (\<exists>r'. (actors @ [Some r]) ! RPGActor.id r = Some r' \<and> RPGActor.id r' = RPGActor.id r))"
    using create_actor_appends[of fh fs actors actor_args actor_res actor_fs] by blast
next
  assume "readClasses fh fs = Inr classes \<and> create_class fh class_args fs = (class_res, class_fs) \<and> \<not> isError class_res"
  then show "(\<exists>r. readClasses fh class_fs = Inr (classes @ [Some r]) \<and> RPGClass.id r = length classes           \<and> (\<exists>r'. (classes @ [Some r]) ! RPGClass.id r = Some r' \<and> RPGClass.id r' = RPGClass.id r))"
    using create_class_appends[of fh fs classes class_args class_res class_fs] by blast
next
  assume "readEnemies fh fs = Inr enemies \<and> create_enemy fh enemy_args fs = (enemy_res, enemy_fs) \<and> \<not> isError enemy_res"
  then show "(\<exists>r. readEnemies fh enemy_fs = Inr (enemies @ [Some r]) \<and> RPGEnemy.id r = length enemies           \<and> (\<exists>r'. (enemies @ [Some r]) ! RPGEnemy.id r = Some r' \<and> RPGEnemy.id r' = RPGEnemy.id r))"
    using create_enemy_appends[of fh fs enemies enemy_args enemy_res enemy_fs] by blast
qed

theorem create_appends_at_length_witness:
  "\<not> isError (fst (create_item demo_handler demo_item_args demo_project))
   \<and> (\<exists>r. readItems demo_handler (snd (create_item demo_handler demo_item_args demo_project)) = Inr (demo_items @ [Some r])
          \<and> RPGItem.id r = length (demo_items :: RPGItem option list))
   \<and> \<not> isError (fst (create_skill demo_handler demo_skill_args demo_project))
   \<and> (\<exists>r. readSkills demo_handler (snd (create_skill demo_handler demo_skill_args demo_project)) = Inr ([None] @ [Some r])
          \<and> RPGSkill.id r = length ([None] :: RPGSkill option list))
   \<and> \<not> isError (fst (create_state demo_handler demo_state_args demo_project))
   \<and> (\<exists>r. readStates demo_handler (snd (create_state demo_handler demo_state_args demo_project)) = Inr ([None, None] @ [Some r])
          \<and> RPGState.id r = length ([None, None] :: RPGState option list))
   \<and> \<not> isError (fst (create_weapon demo_handler demo_weapon_args demo_project))
   \<and> (\<exists>r. readWeapons demo_handler (snd (create_weapon demo_handler demo_weapon_args demo_project)) = Inr ([None] @ [Some r])
          \<and> RPGWeapon.id r = length ([None] :: RPGWeapon option list))
   \<and> \<not> isError (fst (create_armor demo_handler demo_armor_args demo_project))
   \<and> (\<exists>r. readArmors demo_handler (snd (create_armor demo_handler demo_armor_args demo_project)) = Inr ([None] @ [Some r])
          \<and> RPGArmor.id r = length ([None] :: RPGArmor option list))
   \<and> \<not> isError (fst (create_actor demo_handler demo_actor_args demo_project))
   \<and> (\<exists>r. readActors demo_handler (snd (create_actor demo_handler demo_actor_args demo_project)) = Inr ([None] @ [Some r])
          \<and> RPGActor.id r = length ([None] :: RPGActor option list))
   \<and> \<not> isError (fst (create_class demo_handler demo_class_args demo_project))
   \<and> (\<exists>r. readClasses demo_handler (snd (create_class demo_handler demo_class_args demo_project)) = Inr ([None] @ [Some r])
          \<and> RPGClass.id r = length ([None] :: RPGClass option list))
   \<and> \<not> isError (fst (create_enemy demo_handler demo_enemy_args demo_project))
   \<and> (\<exists>r. readEnemies demo_handler (snd (create_enemy demo_handler demo_enemy_args demo_project)) = Inr ([None] @ [Some r])
          \<and> RPGEnemy.id r = length ([None] :: RPGEnemy option list))"
proof -
  note t = create_appends_at_length[where fh = demo_handler and fs = demo_project and items = "demo_items" and item_args = demo_item_args and item_res = "fst (create_item demo_handler demo_item_args demo_project)" and item_fs = "snd (create_item demo_handler demo_item_args demo_project)" and skills = "[None]" and skill_args = demo_skill_args and skill_res = "fst (create_skill demo_handler demo_skill_args demo_project)" and skill_fs = "snd (create_skill demo_handler demo_skill_args demo_project)" and states = "[None, None]" and state_args = demo_state_args and state_res = "fst (create_state demo_handler demo_state_args demo_project)" and state_fs = "snd (create_state demo_handler demo_state_args demo_project)" and weapons = "[None]" and weapon_args = demo_weapon_args and weapon_res = "fst (create_weapon demo_handler demo_weapon_args demo_project)" and weapon_fs = "snd (create_weapon demo_handler demo_weapon_args demo_project)" and armors = "[None]" and armor_args = demo_armor_args and armor_res = "fst (create_armor demo_handler demo_armor_args demo_project)" and armor_fs = "snd (create_armor demo_handler demo_armor_args demo_project)" and actors = "[None]" and actor_args = demo_actor_args and actor_res = "fst (create_actor demo_handler demo_actor_args demo_project)" and actor_fs = "snd (create_actor demo_handler demo_actor_args demo_project)" and classes = "[None]" and class_args = demo_class_args and class_res = "fst (create_class demo_handler demo_class_args demo_project)" and class_fs = "snd (create_class demo_handler demo_class_args demo_project)" and enemies = "[None]" and enemy_args = demo_enemy_args and enemy_res = "fst (create_enemy demo_handler demo_enemy_args demo_project)" and enemy_fs = "snd (create_enemy demo_handler demo_enemy_args demo_project)"]
  have r0: "readItems demo_handler demo_project = Inr (demo_items)"
    by (simp add: read_defs demo_project_def demo_handler_def fh_defs)
  have n0: "\<not> isError (fst (create_item demo_handler demo_item_args demo_project))"
    by (simp add: create_item_def writeAndReport_def writeToDatabase_def bumpVersion_def
          systemFile_def success_def caught_def read_defs demo_project_def demo_handler_def
          fh_defs)
  have e0: "create_item demo_handler demo_item_args demo_project = (fst (create_item demo_handler demo_item_args demo_project), snd (create_item demo_handler demo_item_args demo_project))"
    by simp
  from t[THEN conjunct1] r0 n0 e0
  have w0: "\<exists>r. readItems demo_handler (snd (create_item demo_handler demo_item_args demo_project)) = Inr (demo_items @ [Some r])
          \<and> RPGItem.id r = length (demo_items :: RPGItem option list)"
    by blast
  have r1: "readSkills demo_handler demo_project = Inr ([None])"
    by (simp add: read_defs demo_project_def demo_handler_def fh_defs)
  have n1: "\<not> isError (fst (create_skill demo_handler demo_skill_args demo_project))"
    by (simp add: create_skill_def writeAndReport_def writeToDatabase_def bumpVersion_def
          systemFile_def success_def caught_def read_defs demo_project_def demo_handler_def
          fh_defs)
  have e1: "create_skill demo_handler demo_skill_args demo_project = (fst (create_skill demo_handler demo_skill_args demo_project), snd (create_skill demo_handler demo_skill_args demo_project))"
    by simp
  from t[THEN conjunct2, THEN conjunct1] r1 n1 e1
  have w1: "\<exists>r. readSkills demo_handler (snd (create_skill demo_handler demo_skill_args demo_project)) = Inr ([None] @ [Some r])
          \<and> RPGSkill.id r = length ([None] :: RPGSkill option list)"
    by blast
  have r2: "readStates demo_handler demo_project = Inr ([None, None])"
    by (simp add: read_defs demo_project_def demo_handler_def fh_defs)
  have n2: "\<not> isError (fst (create_state demo_handler demo_state_args demo_project))"
    by (simp add: create_state_def writeAndReport_def writeToDatabase_def bumpVersion_def
          systemFile_def success_def caught_def read_defs demo_project_def demo_handler_def
          fh_defs)
  have e2: "create_state demo_handler demo_state_args demo_project = (fst (create_state demo_handler demo_state_args demo_project), snd (create_state demo_handler demo_state_args demo_project))"
    by simp
  from t[THEN conjunct2, THEN conjunct2, THEN conjunct1] r2 n2 e2
  have w2: "\<exists>r. readStates demo_handler (snd (create_state demo_handler demo_state_args demo_project)) = Inr ([None, None] @ [Some r])
          \<and> RPGState.id r = length ([None, None] :: RPGState option list)"
    by blast
  have r3: "readWeapons demo_handler demo_project = Inr ([None])"
    by (simp add: read_defs demo_project_def demo_handler_def fh_defs)
  have n3: "\<not> isError (fst (create_weapon demo_handler demo_weapon_args demo_project))"
    by (simp add: create_weapon_def writeAndReport_def writeToDatabase_def bumpVersion_def
          systemFile_def success_def caught_def read_defs demo_project_def demo_handler_def
          fh_defs)
  have e3: "create_weapon demo_handler demo_weapon_args demo_project = (fst (create_weapon demo_handler demo_weapon_args demo_project), snd (create_weapon demo_handler demo_weapon_args demo_project))"
    by simp
  from t[THEN conjunct2, THEN conjunct2, THEN conjunct2, THEN conjunct1] r3 n3 e3
  have w3: "\<exists>r. readWeapons demo_handler (snd (create_weapon demo_handler demo_weapon_args demo_project)) = Inr ([None] @ [Some r])
          \<and> RPGWeapon.id r = length ([None] :: RPGWeapon option list)"
    by blast
  have r4: "readArmors demo_handler demo_project = Inr ([None])"
    by (simp add: read_defs demo_project_def demo_handler_def fh_defs)
  have n4: "\<not> isError (fst (create_armor demo_handler demo_armor_args demo_project))"
    by (simp add: create_armor_def writeAndReport_def writeToDatabase_def bumpVersion_def
          systemFile_def success_def caught_def read_defs demo_project_def demo_handler_def
          fh_defs)
  have e4: "create_armor demo_handler demo_armor_args demo_project = (fst (create_armor demo_handler demo_armor_args demo_project), snd (create_armor demo_handler demo_armor_args demo_project))"
    by simp
  from t[THEN conjunct2, THEN conjunct2, THEN conjunct2, THEN conjunct2, THEN conjunct1] r4 n4 e4
  have w4: "\<exists>r. readArmors demo_handler (snd (create_armor demo_handler demo_armor_args demo_project)) = Inr ([None] @ [Some r])
          \<and> RPGArmor.id r = length ([None] :: RPGArmor option list)"
    by blast
  have r5: "readActors demo_handler demo_project = Inr ([None])"
    by (simp add: read_defs demo_project_def demo_handler_def fh_defs)
  have n5: "\<not> isError (fst (create_actor demo_handler demo_actor_args demo_project))"
    by (simp add: create_actor_def writeAndReport_def writeToDatabase_def bumpVersion_def
          systemFile_def success_def caught_def read_defs demo_project_def demo_handler_def
          fh_defs)
  have e5: "create_actor demo_handler demo_actor_args demo_project = (fst (create_actor demo_handler demo_actor_args demo_project), snd (create_actor demo_handler demo_actor_args demo_project))"
    by simp
  from t[THEN conjunct2, THEN conjunct2, THEN conjunct2, THEN conjunct2, THEN conjunct2, THEN conjunct1] r5 n5 e5
  have w5: "\<exists>r. readActors demo_handler (snd (create_actor demo_handler demo_actor_args demo_project)) = Inr ([None] @ [Some r])
          \<and> RPGActor.id r = length ([None] :: RPGActor option list)"
    by blast
  have r6: "readClasses demo_handler demo_project = Inr ([None])"
    by (simp add: read_defs demo_project_def demo_handler_def fh_defs)
  have n6: "\<not> isError (fst (create_class demo_handler demo_class_args demo_project))"
    by (simp add: create_class_def writeAndReport_def writeToDatabase_def bumpVersion_def
          systemFile_def success_def caught_def read_defs demo_project_def demo_handler_def
          fh_defs)
  have e6: "create_class demo_handler demo_class_args demo_project = (fst (create_class demo_handler demo_class_args demo_project), snd (create_class demo_handler demo_class_args demo_project))"
    by simp
  from t[THEN conjunct2, THEN conjunct2, THEN conjunct2, THEN conjunct2, THEN conjunct2, THEN conjunct2, THEN conjunct1] r6 n6 e6
  have w6: "\<exists>r. readClasses demo_handler (snd (create_class demo_handler demo_class_args demo_project)) = Inr ([None] @ [Some r])
          \<and> RPGClass.id r = length ([None] :: RPGClass option list)"
    by blast
  have r7: "readEnemies demo_handler demo_project = Inr ([None])"
    by (simp add: read_defs demo_project_def demo_handler_def fh_defs)
  have n7: "\<not> isError (fst (create_enemy demo_handler demo_enemy_args demo_project))"
    by (simp add: create_enemy_def writeAndReport_def writeToDatabase_def bumpVersion_def
          systemFile_def success_def caught_def read_defs demo_project_def demo_handler_def
          fh_defs)
  have e7: "create_enemy demo_handler demo_enemy_args demo_project = (fst (create_enemy demo_handler demo_enemy_args demo_project), snd (create_enemy demo_handler demo_enemy_args demo_project))"
    by simp
  from t[THEN conjunct2, THEN conjunct2, THEN conjunct2, THEN conjunct2, THEN conjunct2, THEN conjunct2, THEN conjunct2] r7 n7 e7
  have w7: "\<exists>r. readEnemies demo_handler (snd (create_enemy demo_handler demo_enemy_args demo_project)) = Inr ([None] @ [Some r])
          \<and> RPGEnemy.id r = length ([None] :: RPGEnemy option list)"
    by blast
  show ?thesis
    by (intro conjI n0 w0 n1 w1 n2 w2 n3 w3 n4 w4 n5 w5 n6 w6 n7 w7)
qed

section \<open>Listings and counts\<close>

lemma listed_iff: "listed nm x \<longleftrightarrow> (\<exists>r. x = Some r \<and> nm r \<noteq> Str [])"
  by (cases x) (simp_all add: listed_def)

lemma filter_positions:
  "filter P xs = map (\<lambda>k. xs ! k) (filter (\<lambda>k. P (xs ! k)) [0..<length xs])"
proof -
  have "filter P xs = filter P (map (\<lambda>k. xs ! k) [0..<length xs])"
    by (simp add: map_nth)
  also have "\<dots> = map (\<lambda>k. xs ! k) (filter (\<lambda>k. P (xs ! k)) [0..<length xs])"
    by (simp add: filter_map comp_def)
  finally show ?thesis .
qed

lemma named_records_positions:
  "named_records nm xs =
     map (\<lambda>k. the (xs ! k))
       (filter (\<lambda>k. \<exists>r. xs ! k = Some r \<and> nm r \<noteq> Str []) [0..<length xs])"
  unfolding named_records_def
  by (subst filter_positions) (simp add: listed_iff comp_def)

lemma count_positions:
  "count nm xs = card {k. k < length xs \<and> (\<exists>r. xs ! k = Some r \<and> nm r \<noteq> Str [])}"
  by (simp add: count_def length_filter_conv_card listed_iff)

lemma named_records_unnamed:
  "nm r = Str [] \<Longrightarrow> named_records nm (xs @ [Some r]) = named_records nm xs"
  by (simp add: named_records_def listed_def)

lemma count_unnamed:
  "nm r = Str [] \<Longrightarrow> count nm (xs @ [Some r]) = count nm xs"
  by (simp add: count_def listed_def)

text \<open>What a successful collection write leaves alone.\<close>

lemma writeToDatabase_other:
  assumes "writeToDatabase fh f d fs = (Inr u, fs')"
    and "p \<noteq> resolvePath fh (''data/'' @ f)" and "p \<noteq> resolvePath fh (''data/'' @ f) @ ''.bak''"
    and "p \<noteq> resolvePath fh systemFile" and "p \<noteq> resolvePath fh systemFile @ ''.bak''"
  shows "files fs' p = files fs p"
proof -
  from writeToDatabase_files[OF assms(1)] obtain fs1 where
    aw: "atomicWrite fh (''data/'' @ f) d fs = (Inr (), fs1)"
    and same: "\<And>p. p \<noteq> resolvePath fh systemFile \<Longrightarrow> p \<noteq> resolvePath fh systemFile @ ''.bak''
                 \<Longrightarrow> files fs' p = files fs1 p"
    by blast
  from same[OF assms(4,5)] atomicWrite_other[OF aw assms(2,3)] show ?thesis by simp
qed

lemma create_item_name:
  assumes r: "readItems fh fs = Inr xs"
  shows "\<exists>r msg. create_item fh args fs
           = writeAndReport fh ''Items.json'' (ItemsDoc (xs @ [Some r])) msg fs
     \<and> RPGItem.name r = Str (createItemArgs.name args) \<and> RPGItem.id r = length xs"
  unfolding create_item_def r sum.case Let_def
  apply (rule exI, rule exI, rule conjI)
   apply (rule refl)
  apply (simp add: createDefaultItem_def)
  done

lemma create_item_unnamed:
  assumes "readItems fh fs = Inr xs" and "create_item fh args fs = (res, fs')"
    and "\<not> isError res" and "createItemArgs.name args = []"
  shows "\<exists>r. readItems fh fs' = Inr (xs @ [Some r]) \<and> RPGItem.id r = length xs
           \<and> RPGItem.name r = Str []"
    and "readSkills fh fs' = readSkills fh fs"
    and "readStates fh fs' = readStates fh fs"
    and "readWeapons fh fs' = readWeapons fh fs"
    and "readArmors fh fs' = readArmors fh fs"
    and "readActors fh fs' = readActors fh fs"
    and "readClasses fh fs' = readClasses fh fs"
    and "readEnemies fh fs' = readEnemies fh fs"
proof -
  from create_item_name[OF assms(1), of args] assms(2,4) obtain r msg where
    r: "RPGItem.name r = Str []" "RPGItem.id r = length xs"
    and w: "writeAndReport fh ''Items.json'' (ItemsDoc (xs @ [Some r])) msg fs = (res, fs')"
    by auto
  from writeAndReport_ok[OF w assms(3)] have "readItems fh fs' = Inr (xs @ [Some r])"
    by (simp add: readItems_def)
  with r show "\<exists>r. readItems fh fs' = Inr (xs @ [Some r]) \<and> RPGItem.id r = length xs
           \<and> RPGItem.name r = Str []" by blast
  from w assms(3) obtain u where
    wd: "writeToDatabase fh ''Items.json'' (ItemsDoc (xs @ [Some r])) fs = (Inr u, fs')"
    by (auto simp: writeAndReport_def caught_def split: prod.splits sum.splits)
  note other = writeToDatabase_other[OF wd]
  show "readSkills fh fs' = readSkills fh fs"
    by (simp add: readSkills_def readJson_def other resolvePath_def path_isAbsolute_def
          path_join_def systemFile_def)
  show "readStates fh fs' = readStates fh fs"
    by (simp add: readStates_def readJson_def other resolvePath_def path_isAbsolute_def
          path_join_def systemFile_def)
  show "readWeapons fh fs' = readWeapons fh fs"
    by (simp add: readWeapons_def readJson_def other resolvePath_def path_isAbsolute_def
          path_join_def systemFile_def)
  show "readArmors fh fs' = readArmors fh fs"
    by (simp add: readArmors_def readJson_def other resolvePath_def path_isAbsolute_def
          path_join_def systemFile_def)
  show "readActors fh fs' = readActors fh fs"
    by (simp add: readActors_def readJson_def other resolvePath_def path_isAbsolute_def
          path_join_def systemFile_def)
  show "readClasses fh fs' = readClasses fh fs"
    by (simp add: readClasses_def readJson_def other resolvePath_def path_isAbsolute_def
          path_join_def systemFile_def)
  show "readEnemies fh fs' = readEnemies fh fs"
    by (simp add: readEnemies_def readJson_def other resolvePath_def path_isAbsolute_def
          path_join_def systemFile_def)
qed


text \<open>A collection whose records all have a string as name: the two tests agree on it.\<close>

lemma string_name_iff:
  "is_string v \<Longrightarrow> (v \<noteq> Str []) = nonempty_string v"
  by (cases v) simp_all

lemma named_records_strings:
  assumes "\<forall>r. Some r \<in> set xs \<longrightarrow> is_string (nm r)"
  shows "named_records nm xs =
     map (\<lambda>k. the (xs ! k))
       (filter (\<lambda>k. \<exists>r. xs ! k = Some r \<and> nonempty_string (nm r)) [0..<length xs])"
proof -
  have "filter (\<lambda>k. \<exists>r. xs ! k = Some r \<and> nm r \<noteq> Str []) [0..<length xs]
      = filter (\<lambda>k. \<exists>r. xs ! k = Some r \<and> nonempty_string (nm r)) [0..<length xs]"
  proof (rule filter_cong[OF refl])
    fix k assume "k \<in> set [0..<length xs]"
    then have k: "k < length xs" by simp
    show "(\<exists>r. xs ! k = Some r \<and> nm r \<noteq> Str []) = (\<exists>r. xs ! k = Some r \<and> nonempty_string (nm r))"
    proof (cases "xs ! k")
      case None
      then show ?thesis by simp
    next
      case (Some r)
      with k have "Some r \<in> set xs" by (metis nth_mem)
      with assms have "is_string (nm r)" by blast
      with Some show ?thesis by (simp add: string_name_iff)
    qed
  qed
  then show ?thesis by (simp add: named_records_positions)
qed

lemma count_strings:
  assumes "\<forall>r. Some r \<in> set xs \<longrightarrow> is_string (nm r)"
  shows "count nm xs = card {k. k < length xs \<and> (\<exists>r. xs ! k = Some r \<and> nonempty_string (nm r))}"
proof -
  have "{k. k < length xs \<and> (\<exists>r. xs ! k = Some r \<and> nm r \<noteq> Str [])}
      = {k. k < length xs \<and> (\<exists>r. xs ! k = Some r \<and> nonempty_string (nm r))}"
  proof (rule Collect_cong)
    fix k
    show "(k < length xs \<and> (\<exists>r. xs ! k = Some r \<and> nm r \<noteq> Str []))
        = (k < length xs \<and> (\<exists>r. xs ! k = Some r \<and> nonempty_string (nm r)))"
    proof (cases "k < length xs")
      case False
      then show ?thesis by simp
    next
      case k: True
      show ?thesis
      proof (cases "xs ! k")
        case None
        then show ?thesis by simp
      next
        case (Some r)
        with k have "Some r \<in> set xs" by (metis nth_mem)
        with assms have "is_string (nm r)" by blast
        with Some show ?thesis by (simp add: string_name_iff)
      qed
    qed
  qed
  then show ?thesis by (simp add: count_positions)
qed

text \<open>
  C10, as amended (what a listing shows). \<open>get_items\<close>, \<open>get_skills\<close> and \<open>get_states\<close> list, in
  the order of the collection, exactly the positions that hold a record whose name is not
  the empty string, and each count of \<open>get_database_info\<close> is the number of such positions;
  a record whose name is missing or is not a string is among them. On a collection whose
  records all have a string as name these are exactly the positions that hold a record
  with a non-empty string as name. A record created with the empty name takes the next ID
  in the collection, and the listing and the counts after the call are the ones before it.
\<close>

theorem listings_skip_unnamed:
  "(readItems fh fs = Inr items
      \<longrightarrow> get_items fh fs = listing (map item_summary
             (map (\<lambda>k. the (items ! k))
               (filter (\<lambda>k. \<exists>r. items ! k = Some r \<and> RPGItem.name r \<noteq> Str []) [0..<length items]))))
   \<and> (readSkills fh fs = Inr skills
      \<longrightarrow> get_skills fh fs = listing (map skill_summary
             (map (\<lambda>k. the (skills ! k))
               (filter (\<lambda>k. \<exists>r. skills ! k = Some r \<and> RPGSkill.name r \<noteq> Str []) [0..<length skills]))))
   \<and> (readStates fh fs = Inr states
      \<longrightarrow> get_states fh fs = listing (map state_summary
             (map (\<lambda>k. the (states ! k))
               (filter (\<lambda>k. \<exists>r. states ! k = Some r \<and> RPGState.name r \<noteq> Str []) [0..<length states]))))
   \<and> (readActors fh fs = Inr actors \<and> readClasses fh fs = Inr classes \<and> readSkills fh fs = Inr skills \<and> readItems fh fs = Inr items \<and> readWeapons fh fs = Inr weapons \<and> readArmors fh fs = Inr armors \<and> readEnemies fh fs = Inr enemies \<and> readStates fh fs = Inr states
      \<longrightarrow> get_database_info fh fs = listing
            \<lparr>actors_count = card {k. k < length actors \<and> (\<exists>r. actors ! k = Some r \<and> RPGActor.name r \<noteq> Str [])},
             classes_count = card {k. k < length classes \<and> (\<exists>r. classes ! k = Some r \<and> RPGClass.name r \<noteq> Str [])},
             skills_count = card {k. k < length skills \<and> (\<exists>r. skills ! k = Some r \<and> RPGSkill.name r \<noteq> Str [])},
             items_count = card {k. k < length items \<and> (\<exists>r. items ! k = Some r \<and> RPGItem.name r \<noteq> Str [])},
             weapons_count = card {k. k < length weapons \<and> (\<exists>r. weapons ! k = Some r \<and> RPGWeapon.name r \<noteq> Str [])},
             armors_count = card {k. k < length armors \<and> (\<exists>r. armors ! k = Some r \<and> RPGArmor.name r \<noteq> Str [])},
             enemies_count = card {k. k < length enemies \<and> (\<exists>r. enemies ! k = Some r \<and> RPGEnemy.name r \<noteq> Str [])},
             states_count = card {k. k < length states \<and> (\<exists>r. states ! k = Some r \<and> RPGState.name r \<noteq> Str [])}\<rparr>)
   \<and> (readItems fh fs = Inr items \<and> (\<forall>r. Some r \<in> set items \<longrightarrow> is_string (RPGItem.name r))
      \<longrightarrow> get_items fh fs = listing (map item_summary
             (map (\<lambda>k. the (items ! k))
               (filter (\<lambda>k. \<exists>r. items ! k = Some r \<and> nonempty_string (RPGItem.name r)) [0..<length items]))))
   \<and> (readSkills fh fs = Inr skills \<and> (\<forall>r. Some r \<in> set skills \<longrightarrow> is_string (RPGSkill.name r))
      \<longrightarrow> get_skills fh fs = listing (map skill_summary
             (map (\<lambda>k. the (skills ! k))
               (filter (\<lambda>k. \<exists>r. skills ! k = Some r \<and> nonempty_string (RPGSkill.name r)) [0..<length skills]))))
   \<and> (readStates fh fs = Inr states \<and> (\<forall>r. Some r \<in> set states \<longrightarrow> is_string (RPGState.name r))
      \<longrightarrow> get_states fh fs = listing (map state_summary
             (map (\<lambda>k. the (states ! k))
               (filter (\<lambda>k. \<exists>r. states ! k = Some r \<and> nonempty_string (RPGState.name r)) [0..<length states]))))
   \<and> (readActors fh fs = Inr actors \<and> readClasses fh fs = Inr classes \<and> readSkills fh fs = Inr skills \<and> readItems fh fs = Inr items \<and> readWeapons fh fs = Inr weapons \<and> readArmors fh fs = Inr armors \<and> readEnemies fh fs = Inr enemies \<and> readStates fh fs = Inr states
        \<and> (\<forall>r. Some r \<in> set actors \<longrightarrow> is_string (RPGActor.name r))
        \<and> (\<forall>r. Some r \<in> set classes \<longrightarrow> is_string (RPGClass.name r))
        \<and> (\<forall>r. Some r \<in> set skills \<longrightarrow> is_string (RPGSkill.name r))
        \<and> (\<forall>r. Some r \<in> set items \<longrightarrow> is_string (RPGItem.name r))
        \<and> (\<forall>r. Some r \<in> set weapons \<longrightarrow> is_string (RPGWeapon.name r))
        \<and> (\<forall>r. Some r \<in> set armors \<longrightarrow> is_string (RPGArmor.name r))
        \<and> (\<forall>r. Some r \<in> set enemies \<longrightarrow> is_string (RPGEnemy.name r))
        \<and> (\<forall>r. Some r \<in> set states \<longrightarrow> is_string (RPGState.name r))
      \<longrightarrow> get_database_info fh fs = listing
            \<lparr>actors_count = card {k. k < length actors \<and> (\<exists>r. actors ! k = Some r \<and> nonempty_string (RPGActor.name r))},
             classes_count = card {k. k < length classes \<and> (\<exists>r. classes ! k = Some r \<and> nonempty_string (RPGClass.name r))},
             skills_count = card {k. k < length skills \<and> (\<exists>r. skills ! k = Some r \<and> nonempty_string (RPGSkill.name r))},
             items_count = card {k. k < length items \<and> (\<exists>r. items ! k = Some r \<and> nonempty_string (RPGItem.name r))},
             weapons_count = card {k. k < length weapons \<and> (\<exists>r. weapons ! k = Some r \<and> nonempty_string (RPGWeapon.name r))},
             armors_count = card {k. k < length armors \<and> (\<exists>r. armors ! k = Some r \<and> nonempty_string (RPGArmor.name r))},
             enemies_count = card {k. k < length enemies \<and> (\<exists>r. enemies ! k = Some r \<and> nonempty_string (RPGEnemy.name r))},
             states_count = card {k. k < length states \<and> (\<exists>r. states ! k = Some r \<and> nonempty_string (RPGState.name r))}\<rparr>)
   \<and> (readItems fh fs = Inr items \<and> create_item fh args fs = (res, fs') \<and> \<not> isError res
        \<and> createItemArgs.name args = []
      \<longrightarrow> (\<exists>r. readItems fh fs' = Inr (items @ [Some r]) \<and> RPGItem.id r = length items
                \<and> RPGItem.name r = Str [])
          \<and> get_items fh fs' = get_items fh fs
          \<and> get_database_info fh fs' = get_database_info fh fs)"
proof (intro conjI impI)
  assume "readItems fh fs = Inr items"
  then show "get_items fh fs = listing (map item_summary
             (map (\<lambda>k. the (items ! k))
               (filter (\<lambda>k. \<exists>r. items ! k = Some r \<and> RPGItem.name r \<noteq> Str []) [0..<length items])))"
    by (simp add: get_items_def named_records_positions)
next
  assume "readSkills fh fs = Inr skills"
  then show "get_skills fh fs = listing (map skill_summary
             (map (\<lambda>k. the (skills ! k))
               (filter (\<lambda>k. \<exists>r. skills ! k = Some r \<and> RPGSkill.name r \<noteq> Str []) [0..<length skills])))"
    by (simp add: get_skills_def named_records_positions)
next
  assume "readStates fh fs = Inr states"
  then show "get_states fh fs = listing (map state_summary
             (map (\<lambda>k. the (states ! k))
               (filter (\<lambda>k. \<exists>r. states ! k = Some r \<and> RPGState.name r \<noteq> Str []) [0..<length states])))"
    by (simp add: get_states_def named_records_positions)
next
  assume "readActors fh fs = Inr actors \<and> readClasses fh fs = Inr classes \<and> readSkills fh fs = Inr skills \<and> readItems fh fs = Inr items \<and> readWeapons fh fs = Inr weapons \<and> readArmors fh fs = Inr armors \<and> readEnemies fh fs = Inr enemies \<and> readStates fh fs = Inr states"
  then show "get_database_info fh fs = listing
            \<lparr>actors_count = card {k. k < length actors \<and> (\<exists>r. actors ! k = Some r \<and> RPGActor.name r \<noteq> Str [])},
             classes_count = card {k. k < length classes \<and> (\<exists>r. classes ! k = Some r \<and> RPGClass.name r \<noteq> Str [])},
             skills_count = card {k. k < length skills \<and> (\<exists>r. skills ! k = Some r \<and> RPGSkill.name r \<noteq> Str [])},
             items_count = card {k. k < length items \<and> (\<exists>r. items ! k = Some r \<and> RPGItem.name r \<noteq> Str [])},
             weapons_count = card {k. k < length weapons \<and> (\<exists>r. weapons ! k = Some r \<and> RPGWeapon.name r \<noteq> Str [])},
             armors_count = card {k. k < length armors \<and> (\<exists>r. armors ! k = Some r \<and> RPGArmor.name r \<noteq> Str [])},
             enemies_count = card {k. k < length enemies \<and> (\<exists>r. enemies ! k = Some r \<and> RPGEnemy.name r \<noteq> Str [])},
             states_count = card {k. k < length states \<and> (\<exists>r. states ! k = Some r \<and> RPGState.name r \<noteq> Str [])}\<rparr>"
    by (simp add: get_database_info_def count_positions)
next
  assume "readItems fh fs = Inr items \<and> (\<forall>r. Some r \<in> set items \<longrightarrow> is_string (RPGItem.name r))"
  then show "get_items fh fs = listing (map item_summary
             (map (\<lambda>k. the (items ! k))
               (filter (\<lambda>k. \<exists>r. items ! k = Some r \<and> nonempty_string (RPGItem.name r)) [0..<length items])))"
    by (simp add: get_items_def named_records_strings)
next
  assume "readSkills fh fs = Inr skills \<and> (\<forall>r. Some r \<in> set skills \<longrightarrow> is_string (RPGSkill.name r))"
  then show "get_skills fh fs = listing (map skill_summary
             (map (\<lambda>k. the (skills ! k))
               (filter (\<lambda>k. \<exists>r. skills ! k = Some r \<and> nonempty_string (RPGSkill.name r)) [0..<length skills])))"
    by (simp add: get_skills_def named_records_strings)
next
  assume "readStates fh fs = Inr states \<and> (\<forall>r. Some r \<in> set states \<longrightarrow> is_string (RPGState.name r))"
  then show "get_states fh fs = listing (map state_summary
             (map (\<lambda>k. the (states ! k))
               (filter (\<lambda>k. \<exists>r. states ! k = Some r \<and> nonempty_string (RPGState.name r)) [0..<length states])))"
    by (simp add: get_states_def named_records_strings)
next
  assume "readActors fh fs = Inr actors \<and> readClasses fh fs = Inr classes \<and> readSkills fh fs = Inr skills \<and> readItems fh fs = Inr items \<and> readWeapons fh fs = Inr weapons \<and> readArmors fh fs = Inr armors \<and> readEnemies fh fs = Inr enemies \<and> readStates fh fs = Inr states
        \<and> (\<forall>r. Some r \<in> set actors \<longrightarrow> is_string (RPGActor.name r))
        \<and> (\<forall>r. Some r \<in> set classes \<longrightarrow> is_string (RPGClass.name r))
        \<and> (\<forall>r. Some r \<in> set skills \<longrightarrow> is_string (RPGSkill.name r))
        \<and> (\<forall>r. Some r \<in> set items \<longrightarrow> is_string (RPGItem.name r))
        \<and> (\<forall>r. Some r \<in> set weapons \<longrightarrow> is_string (RPGWeapon.name r))
        \<and> (\<forall>r. Some r \<in> set armors \<longrightarrow> is_string (RPGArmor.name r))
        \<and> (\<forall>r. Some r \<in> set enemies \<longrightarrow> is_string (RPGEnemy.name r))
        \<and> (\<forall>r. Some r \<in> set states \<longrightarrow> is_string (RPGState.name r))"
  then show "get_database_info fh fs = listing
            \<lparr>actors_count = card {k. k < length actors \<and> (\<exists>r. actors ! k = Some r \<and> nonempty_string (RPGActor.name r))},
             classes_count = card {k. k < length classes \<and> (\<exists>r. classes ! k = Some r \<and> nonempty_string (RPGClass.name r))},
             skills_count = card {k. k < length skills \<and> (\<exists>r. skills ! k = Some r \<and> nonempty_string (RPGSkill.name r))},
             items_count = card {k. k < length items \<and> (\<exists>r. items ! k = Some r \<and> nonempty_string (RPGItem.name r))},
             weapons_count = card {k. k < length weapons \<and> (\<exists>r. weapons ! k = Some r \<and> nonempty_string (RPGWeapon.name r))},
             armors_count = card {k. k < length armors \<and> (\<exists>r. armors ! k = Some r \<and> nonempty_string (RPGArmor.name r))},
             enemies_count = card {k. k < length enemies \<and> (\<exists>r. enemies ! k = Some r \<and> nonempty_string (RPGEnemy.name r))},
             states_count = card {k. k < length states \<and> (\<exists>r. states ! k = Some r \<and> nonempty_string (RPGState.name r))}\<rparr>"
    by (simp add: get_database_info_def count_strings)
next
  assume a: "readItems fh fs = Inr items \<and> create_item fh args fs = (res, fs') \<and> \<not> isError res
        \<and> createItemArgs.name args = []"
  then have a1: "readItems fh fs = Inr items" and a2: "create_item fh args fs = (res, fs')"
    and a3: "\<not> isError res" and a4: "createItemArgs.name args = []"
    by simp_all
  note u = create_item_unnamed[OF a1 a2 a3 a4]
  from u(1) obtain r where r: "readItems fh fs' = Inr (items @ [Some r])"
    "RPGItem.id r = length items" "RPGItem.name r = Str []"
    by blast
  then show "\<exists>r. readItems fh fs' = Inr (items @ [Some r]) \<and> RPGItem.id r = length items
                \<and> RPGItem.name r = Str []"
    by blast
  show "get_items fh fs' = get_items fh fs"
    by (simp add: get_items_def r(1) a1 named_records_unnamed[of RPGItem.name r, OF r(3)])
  show "get_database_info fh fs' = get_database_info fh fs"
    unfolding get_database_info_def u(2-8) r(1) a1 sum.case
    by (simp add: count_unnamed[of RPGItem.name r, OF r(3)] cong: sum.case_cong)
qed

theorem listings_skip_unnamed_witness:
  "readItems demo_handler demo_project = Inr demo_items
   \<and> get_items demo_handler demo_project
       = listing [item_summary demo_potion, item_summary demo_elixir]
   \<and> readItems demo_handler demo_loose_project = Inr demo_loose_items
   \<and> get_items demo_handler demo_loose_project
       = listing [item_summary demo_potion, item_summary demo_nameless, item_summary demo_numbered]
   \<and> createItemArgs.name demo_unnamed_args = []
   \<and> \<not> isError (fst (create_item demo_handler demo_unnamed_args demo_project))
   \<and> (\<exists>r. readItems demo_handler (snd (create_item demo_handler demo_unnamed_args demo_project))
               = Inr (demo_items @ [Some r])
          \<and> RPGItem.id r = 4 \<and> RPGItem.name r = Str [])
   \<and> get_items demo_handler (snd (create_item demo_handler demo_unnamed_args demo_project))
       = listing [item_summary demo_potion, item_summary demo_elixir]
   \<and> get_database_info demo_handler (snd (create_item demo_handler demo_unnamed_args demo_project))
       = get_database_info demo_handler demo_project"
proof -
  let ?c = "create_item demo_handler demo_unnamed_args demo_project"
  note t = listings_skip_unnamed[where fh = demo_handler and fs = demo_project
      and items = demo_items and args = demo_unnamed_args and res = "fst ?c" and fs' = "snd ?c"]
  note l = listings_skip_unnamed[where fh = demo_handler and fs = demo_loose_project
      and items = demo_loose_items]
  have r0: "readItems demo_handler demo_project = Inr demo_items"
    by (simp add: read_defs demo_project_def demo_handler_def fh_defs)
  have r1: "readItems demo_handler demo_loose_project = Inr demo_loose_items"
    by (simp add: read_defs demo_loose_project_def demo_project_def demo_handler_def fh_defs)
  have nm: "createItemArgs.name demo_unnamed_args = []"
    by (simp add: demo_unnamed_args_def)
  have n: "\<not> isError (fst ?c)"
    by (simp add: create_item_def writeAndReport_def writeToDatabase_def bumpVersion_def
          systemFile_def success_def caught_def read_defs demo_project_def demo_handler_def
          fh_defs)
  have e: "?c = (fst ?c, snd ?c)"
    by simp
  have strings: "\<forall>r. Some r \<in> set demo_items \<longrightarrow> is_string (RPGItem.name r)"
    by (auto simp: demo_items_def demo_potion_def demo_elixir_def createDefaultItem_def)
  from t[THEN conjunct2, THEN conjunct2, THEN conjunct2, THEN conjunct2, THEN conjunct1]
    r0 strings
  have "get_items demo_handler demo_project = listing (map item_summary
          (map (\<lambda>k. the (demo_items ! k))
            (filter (\<lambda>k. \<exists>r. demo_items ! k = Some r \<and> nonempty_string (RPGItem.name r))
               [0..<length demo_items])))"
    by blast
  also have "(map (\<lambda>k. the (demo_items ! k))
            (filter (\<lambda>k. \<exists>r. demo_items ! k = Some r \<and> nonempty_string (RPGItem.name r))
               [0..<length demo_items])) = [demo_potion, demo_elixir]"
    by (simp add: demo_items_def demo_potion_def demo_elixir_def createDefaultItem_def
          upt_rec numeral_nat)
  finally have g: "get_items demo_handler demo_project
       = listing [item_summary demo_potion, item_summary demo_elixir]"
    by simp
  from l[THEN conjunct1] r1
  have "get_items demo_handler demo_loose_project = listing (map item_summary
          (map (\<lambda>k. the (demo_loose_items ! k))
            (filter (\<lambda>k. \<exists>r. demo_loose_items ! k = Some r \<and> RPGItem.name r \<noteq> Str [])
               [0..<length demo_loose_items])))"
    by blast
  also have "(map (\<lambda>k. the (demo_loose_items ! k))
            (filter (\<lambda>k. \<exists>r. demo_loose_items ! k = Some r \<and> RPGItem.name r \<noteq> Str [])
               [0..<length demo_loose_items])) = [demo_potion, demo_nameless, demo_numbered]"
    by (simp add: demo_loose_items_def demo_potion_def demo_nameless_def demo_numbered_def
          createDefaultItem_def upt_rec numeral_nat)
  finally have gl: "get_items demo_handler demo_loose_project
       = listing [item_summary demo_potion, item_summary demo_nameless, item_summary demo_numbered]"
    by simp
  from t[THEN conjunct2, THEN conjunct2, THEN conjunct2, THEN conjunct2, THEN conjunct2,
         THEN conjunct2, THEN conjunct2, THEN conjunct2] r0 e n nm
  have w: "(\<exists>r. readItems demo_handler (snd ?c) = Inr (demo_items @ [Some r])
              \<and> RPGItem.id r = length demo_items \<and> RPGItem.name r = Str [])"
    and g': "get_items demo_handler (snd ?c) = get_items demo_handler demo_project"
    and d: "get_database_info demo_handler (snd ?c) = get_database_info demo_handler demo_project"
    by blast+
  have len: "length demo_items = 4"
    by (simp add: demo_items_def)
  have w': "\<exists>r. readItems demo_handler (snd ?c) = Inr (demo_items @ [Some r])
              \<and> RPGItem.id r = 4 \<and> RPGItem.name r = Str []"
    using w unfolding len .
  have g'': "get_items demo_handler (snd ?c)
       = listing [item_summary demo_potion, item_summary demo_elixir]"
    using g g' by simp
  show ?thesis
    by (intro conjI r0 g r1 gl nm n w' g'' d)
qed

text \<open>
  The claim as it stands fails on a record without a string as name: of the items
  \<open>[null, Potion, {id: 2, ...}, {id: 3, name: 5, ...}]\<close> the listing shows all three records
  and the count of items is 3, though only the first has a non-empty string as name.
\<close>

theorem listing_shows_nameless_counterexample:
  "readItems demo_handler demo_loose_project = Inr demo_loose_items
   \<and> demo_loose_items ! 2 = Some demo_nameless
   \<and> RPGItem.name demo_nameless = Undefined
   \<and> \<not> nonempty_string (RPGItem.name demo_nameless)
   \<and> demo_loose_items ! 3 = Some demo_numbered
   \<and> RPGItem.name demo_numbered = NonString ''5''
   \<and> \<not> nonempty_string (RPGItem.name demo_numbered)
   \<and> get_items demo_handler demo_loose_project
       = listing [item_summary demo_potion, item_summary demo_nameless, item_summary demo_numbered]
   \<and> get_database_info demo_handler demo_loose_project
       = listing \<lparr>actors_count = 0, classes_count = 0, skills_count = 0, items_count = 3,
                  weapons_count = 0, armors_count = 0, enemies_count = 0, states_count = 0\<rparr>"
proof -
  have r1: "readItems demo_handler demo_loose_project = Inr demo_loose_items"
    by (simp add: read_defs demo_loose_project_def demo_project_def demo_handler_def fh_defs)
  have i2: "demo_loose_items ! 2 = Some demo_nameless"
    by (simp add: demo_loose_items_def)
  have i3: "demo_loose_items ! 3 = Some demo_numbered"
    by (simp add: demo_loose_items_def)
  have n2: "RPGItem.name demo_nameless = Undefined"
    by (simp add: demo_nameless_def)
  have n3: "RPGItem.name demo_numbered = NonString ''5''"
    by (simp add: demo_numbered_def)
  have e2: "\<not> nonempty_string (RPGItem.name demo_nameless)"
    by (simp add: n2)
  have e3: "\<not> nonempty_string (RPGItem.name demo_numbered)"
    by (simp add: n3)
  have nr: "named_records RPGItem.name demo_loose_items
      = [demo_potion, demo_nameless, demo_numbered]"
    by (simp add: named_records_def listed_def demo_loose_items_def demo_potion_def
          demo_nameless_def demo_numbered_def createDefaultItem_def)
  have g: "get_items demo_handler demo_loose_project
       = listing [item_summary demo_potion, item_summary demo_nameless, item_summary demo_numbered]"
    by (simp add: get_items_def r1 nr)
  have c: "count RPGItem.name demo_loose_items = 3"
    by (simp add: count_def listed_def demo_loose_items_def demo_potion_def
          demo_nameless_def demo_numbered_def createDefaultItem_def)
  have d: "get_database_info demo_handler demo_loose_project
       = listing \<lparr>actors_count = 0, classes_count = 0, skills_count = 0, items_count = 3,
                  weapons_count = 0, armors_count = 0, enemies_count = 0, states_count = 0\<rparr>"
    unfolding get_database_info_def r1 sum.case c
    by (simp add: count_def listed_def read_defs demo_loose_project_def demo_project_def
          demo_handler_def fh_defs)
  show ?thesis
    by (intro conjI r1 i2 n2 e2 i3 n3 e3 g d)
qed

section \<open>Creating a map\<close>

lemma next_id_loop:
  "1 \<le> foldl (\<lambda>newId i. if P i then i + 1 else newId) 1 [1..<n]
   \<and> foldl (\<lambda>newId i. if P i then i + 1 else newId) 1 [1..<n] \<le> max 1 n"
proof (induction n)
  case 0
  show ?case by simp
next
  case (Suc n)
  show ?case
  proof (cases "1 \<le> n")
    case True
    then have "[1..<Suc n] = [1..<n] @ [n]" by simp
    with Suc show ?thesis by auto
  next
    case False
    then show ?thesis by simp
  qed
qed

lemma nextMapId_eq: "nextMapId mapInfos = max 1 (length mapInfos)"
  using next_id_loop[of "\<lambda>i. mapInfos ! i \<noteq> None" "length mapInfos"]
  by (auto simp: nextMapId_def Let_def)

lemma foldl_max:
  "foldl (\<lambda>mx m. max mx (g m)) (a :: int) ms = Max (insert a (g ` set ms))"
proof (induction ms arbitrary: a)
  case Nil
  show ?case by simp
next
  case (Cons m ms)
  have "Max (insert (max a (g m)) (g ` set ms)) = max a (Max (insert (g m) (g ` set ms)))"
    by (cases "g ` set ms = {}") (simp_all add: max.assoc)
  with Cons show ?case by simp
qed

lemma populated_set:
  "set (map the (filter (\<lambda>m. m \<noteq> None) xs)) = {m. Some m \<in> set xs}"
  by (induction xs) auto

lemma maxOrder_eq:
  "maxOrder mapInfos = Max (insert 0 (order ` {m. Some m \<in> set mapInfos}))"
proof -
  have "(\<lambda>mx m. max mx (if order m \<noteq> 0 then order m else 0)) = (\<lambda>mx m. max mx (order m))"
    by (intro ext) simp
  then have "maxOrder mapInfos
        = foldl (\<lambda>mx m. max mx (order m)) 0 (map the (filter (\<lambda>m. m \<noteq> None) mapInfos))"
    unfolding maxOrder_def by (rule arg_cong2[where f = "\<lambda>f a. foldl f 0 a", OF _ refl])
  also have "\<dots> = Max (insert 0 (order ` set (map the (filter (\<lambda>m. m \<noteq> None) mapInfos))))"
    by (rule foldl_max)
  finally show ?thesis
    unfolding populated_set .
qed

lemma foldr_max: "foldr max (ks :: nat list) 0 = Max (insert 0 (set ks))"
proof (induction ks)
  case Nil
  show ?case by simp
next
  case (Cons k ks)
  have "Max (insert 0 (set (k # ks))) = Max (insert k (insert 0 (set ks)))"
    by (simp add: insert_commute)
  also have "\<dots> = max k (Max (insert 0 (set ks)))"
    by (rule Max_insert) simp_all
  finally show ?case using Cons by simp
qed

lemma spec_max_populated_id_eq:
  "spec_max_populated_id mapInfos = Max (insert 0 (RPGMapInfo.id ` {m. Some m \<in> set mapInfos}))"
proof -
  have "spec_max_populated_id mapInfos
        = Max (insert 0 (set (map RPGMapInfo.id (map the (filter (\<lambda>m. m \<noteq> None) mapInfos)))))"
    unfolding spec_max_populated_id_def by (rule foldr_max)
  also have "set (map RPGMapInfo.id (map the (filter (\<lambda>m. m \<noteq> None) mapInfos)))
             = RPGMapInfo.id ` set (map the (filter (\<lambda>m. m \<noteq> None) mapInfos))"
    by (rule set_map)
  finally show ?thesis
    unfolding populated_set .
qed

text \<open>
  Where the claim's reading and the code agree: the index ends in a descriptor, and every
  descriptor carries its position as \<open>id\<close>.
\<close>

lemma nextMapId_spec:
  assumes "mapInfos \<noteq> []" and "last mapInfos \<noteq> None"
    and "\<forall>k < length mapInfos. \<forall>m. mapInfos ! k = Some m \<longrightarrow> RPGMapInfo.id m = k"
  shows "nextMapId mapInfos = spec_max_populated_id mapInfos + 1"
proof -
  let ?n = "length mapInfos"
  let ?S = "RPGMapInfo.id ` {m. Some m \<in> set mapInfos}"
  from assms(1,2) obtain m where m: "mapInfos ! (?n - 1) = Some m"
    by (auto simp: last_conv_nth)
  from assms(1) have pos: "?n - 1 < ?n" by simp
  with m assms(3) have idm: "RPGMapInfo.id m = ?n - 1" by blast
  from m pos have "Some m \<in> set mapInfos" by (metis nth_mem)
  with idm have mem: "?n - 1 \<in> ?S" by force
  have bound: "\<forall>k \<in> ?S. k \<le> ?n - 1"
  proof
    fix k assume "k \<in> ?S"
    then obtain m' where "Some m' \<in> set mapInfos" "k = RPGMapInfo.id m'" by auto
    then obtain j where "j < ?n" "mapInfos ! j = Some m'" by (auto simp: in_set_conv_nth)
    with assms(3) \<open>k = RPGMapInfo.id m'\<close> show "k \<le> ?n - 1" by auto
  qed
  have "finite {m. Some m \<in> set mapInfos}"
    by (subst populated_set[symmetric]) (rule finite_set)
  then have fin: "finite (insert 0 ?S)" by simp
  have "Max (insert 0 ?S) = ?n - 1"
  proof (rule Max_eqI[OF fin])
    show "?n - 1 \<in> insert 0 ?S" using mem by simp
    show "\<And>y. y \<in> insert 0 ?S \<Longrightarrow> y \<le> ?n - 1" using bound by auto
  qed
  moreover from assms(1) have "1 \<le> ?n" by (cases mapInfos) simp_all
  ultimately show ?thesis
    by (simp add: nextMapId_eq spec_max_populated_id_eq max_def)
qed

lemma decimal_digits: "set (decimal n) \<subseteq> set ''0123456789''"
proof (induction n rule: decimal.induct)
  case (1 n)
  show ?case
  proof (cases "n < 10")
    case True
    then have "digit_char n \<in> set ''0123456789''"
      unfolding digit_char_def by (intro nth_mem) simp
    with True show ?thesis by (subst decimal.simps) simp
  next
    case False
    have "n mod 10 < 10" by simp
    then have "digit_char (n mod 10) \<in> set ''0123456789''"
      unfolding digit_char_def by (intro nth_mem) simp
    with False "1.IH" show ?thesis by (subst decimal.simps) simp
  qed
qed

lemma mapFilename_not_index: "mapFilename n \<noteq> ''MapInfos.json''"
proof
  assume "mapFilename n = ''MapInfos.json''"
  then have "padStart 3 (CHR ''0'') (decimal n) @ ''.json'' = ''Infos'' @ ''.json''"
    by (simp add: mapFilename_def)
  then have "padStart 3 (CHR ''0'') (decimal n) = ''Infos''"
    by (simp only: append_same_eq)
  then have "CHR ''I'' \<in> set (padStart 3 (CHR ''0'') (decimal n))"
    by simp
  then have "CHR ''I'' \<in> set (decimal n)"
    by (auto simp: padStart_def)
  with decimal_digits[of n] show False by auto
qed

lemma mapFilename_ends: "\<exists>p. mapFilename n = CHR ''M'' # p @ ''n''"
  by (simp add: mapFilename_def)

lemma map_path_distinct:
  "resolvePath fh (''data/'' @ mapFilename n) \<noteq> resolvePath fh ''data/MapInfos.json''"
  "resolvePath fh (''data/'' @ mapFilename n) \<noteq> resolvePath fh ''data/MapInfos.json'' @ ''.bak''"
  "resolvePath fh (''data/'' @ mapFilename n) @ ''.bak'' \<noteq> resolvePath fh ''data/MapInfos.json''"
  "resolvePath fh (''data/'' @ mapFilename n) \<noteq> resolvePath fh systemFile"
  "resolvePath fh (''data/'' @ mapFilename n) \<noteq> resolvePath fh systemFile @ ''.bak''"
proof -
  obtain p where p: "mapFilename n = CHR ''M'' # p @ ''n''"
    using mapFilename_ends by blast
  show "resolvePath fh (''data/'' @ mapFilename n) \<noteq> resolvePath fh ''data/MapInfos.json''"
    using mapFilename_not_index[of n]
    by (simp add: resolvePath_def path_isAbsolute_def path_join_def)
  show "resolvePath fh (''data/'' @ mapFilename n) \<noteq> resolvePath fh ''data/MapInfos.json'' @ ''.bak''"
  proof
    assume "resolvePath fh (''data/'' @ mapFilename n) = resolvePath fh ''data/MapInfos.json'' @ ''.bak''"
    then have "last (resolvePath fh (''data/'' @ mapFilename n))
               = last (resolvePath fh ''data/MapInfos.json'' @ ''.bak'')" by simp
    then show False
      by (simp add: resolvePath_def path_isAbsolute_def path_join_def p)
  qed
  show "resolvePath fh (''data/'' @ mapFilename n) @ ''.bak'' \<noteq> resolvePath fh ''data/MapInfos.json''"
  proof
    assume "resolvePath fh (''data/'' @ mapFilename n) @ ''.bak'' = resolvePath fh ''data/MapInfos.json''"
    then have "last (resolvePath fh (''data/'' @ mapFilename n) @ ''.bak'')
               = last (resolvePath fh ''data/MapInfos.json'')" by simp
    then show False
      by (simp add: resolvePath_def path_isAbsolute_def path_join_def)
  qed
  show "resolvePath fh (''data/'' @ mapFilename n) \<noteq> resolvePath fh systemFile"
    by (simp add: resolvePath_def path_isAbsolute_def path_join_def systemFile_def p)
  show "resolvePath fh (''data/'' @ mapFilename n) \<noteq> resolvePath fh systemFile @ ''.bak''"
    by (simp add: resolvePath_def path_isAbsolute_def path_join_def systemFile_def p)
qed


lemma bumpVersion_other:
  assumes "bumpVersion fh fs = (r, fs')"
    and "p \<noteq> resolvePath fh systemFile" and "p \<noteq> resolvePath fh systemFile @ ''.bak''"
  shows "files fs' p = files fs p"
proof (cases "readJson fh systemFile fs")
  case (Inl e)
  with assms(1) show ?thesis by (simp add: bumpVersion_def)
next
  case (Inr d)
  show ?thesis
  proof (cases "\<exists>s. d = SystemDoc s")
    case True
    then obtain s where "d = SystemDoc s" ..
    with Inr assms(1) have
      "atomicWrite fh systemFile (SystemDoc (s\<lparr>versionId := versionId s + 1\<rparr>)) fs = (r, fs')"
      by (simp add: bumpVersion_def)
    from atomicWrite_other[OF this assms(2,3)] show ?thesis .
  next
    case False
    with Inr assms(1) show ?thesis
      by (cases d) (simp_all add: bumpVersion_def)
  qed
qed

lemma index_path_distinct:
  "resolvePath fh ''data/MapInfos.json'' \<noteq> resolvePath fh systemFile"
  "resolvePath fh ''data/MapInfos.json'' \<noteq> resolvePath fh systemFile @ ''.bak''"
  by (simp_all add: resolvePath_def path_isAbsolute_def path_join_def systemFile_def)

lemma writeMap_Inr:
  assumes w: "writeMap fh n body mi fs = (Inr u, fs')"
    and r: "readMapInfos fh fs = Inr infos"
  shows "readMapInfos fh fs' = Inr (infos @ [Some mi])"
    and "readJson fh (''data/'' @ mapFilename n) fs' = Inr (MapDoc body)"
proof -
  let ?M = "resolvePath fh (''data/'' @ mapFilename n)"
  let ?I = "resolvePath fh ''data/MapInfos.json''"
  from w obtain u1 fs1 where
    w1: "atomicWrite fh (''data/'' @ mapFilename n) (MapDoc body) fs = (Inr u1, fs1)"
    by (auto simp: writeMap_def split: prod.splits sum.splits)
  from atomicWrite_other[OF w1, of ?I] map_path_distinct(1,3)[of fh n]
  have same1: "files fs1 ?I = files fs ?I"
    by (simp del: append.simps)
  then have r1: "readMapInfos fh fs1 = Inr infos"
    using r by (simp add: readMapInfos_def readJson_def)
  from w w1 r1 obtain u2 fs2 where
    w2: "atomicWrite fh ''data/MapInfos.json'' (MapInfosDoc (infos @ [Some mi])) fs1 = (Inr u2, fs2)"
    and b: "bumpVersion fh fs2 = (Inr u, fs')"
    by (auto simp: writeMap_def split: prod.splits sum.splits)
  have "files fs2 ?I = Some (Json (MapInfosDoc (infos @ [Some mi])))"
    using atomicWrite_Inr(1)[OF w2] by simp
  then have "files fs' ?I = Some (Json (MapInfosDoc (infos @ [Some mi])))"
    using bumpVersion_other[OF b index_path_distinct] by simp
  then show "readMapInfos fh fs' = Inr (infos @ [Some mi])"
    by (simp add: readMapInfos_def readJson_def)
  have "files fs1 ?M = Some (Json (MapDoc body))"
    using atomicWrite_Inr(1)[OF w1] by simp
  then have "files fs2 ?M = Some (Json (MapDoc body))"
    using atomicWrite_other[OF w2 map_path_distinct(1,2)] by simp
  then have "files fs' ?M = Some (Json (MapDoc body))"
    using bumpVersion_other[OF b map_path_distinct(4,5)] by simp
  then show "readJson fh (''data/'' @ mapFilename n) fs' = Inr (MapDoc body)"
    by (simp add: readJson_def del: append.simps)
qed

lemma create_map_result:
  assumes "readMapInfos fh fs = Inr infos" and "create_map fh args fs = (res, fs')"
    and "\<not> isError res"
  shows "readMapInfos fh fs' = Inr (infos @ [Some (newMapInfo args infos)])"
    and "readJson fh (''data/'' @ mapFilename (nextMapId infos)) fs' = Inr (MapDoc (newMapData args))"
proof -
  from assms obtain u where
    "writeMap fh (nextMapId infos) (newMapData args) (newMapInfo args infos) fs = (Inr u, fs')"
    by (auto simp: create_map_def Let_def caught_def split: prod.splits sum.splits)
  from writeMap_Inr[OF this assms(1)]
  show "readMapInfos fh fs' = Inr (infos @ [Some (newMapInfo args infos)])"
    and "readJson fh (''data/'' @ mapFilename (nextMapId infos)) fs' = Inr (MapDoc (newMapData args))"
    by simp_all
qed

lemma newMapInfo_fields:
  "RPGMapInfo.id (newMapInfo args infos) = max 1 (length infos)"
  "order (newMapInfo args infos) = Max (insert 0 (order ` {m. Some m \<in> set infos})) + 1"
  by (simp_all add: newMapInfo_def nextMapId_eq maxOrder_eq)

lemma newMapData_cells:
  "RPGMap.data (newMapData args)
     = replicate (createMapArgs.width args * createMapArgs.height args * 6) 0"
  by (simp add: newMapData_def createDefaultMap_def Let_def)

text \<open>
  C6, as amended (the descriptor of a new map). After a successful \<open>create_map\<close> the index
  is the old index with one descriptor appended; its \<open>id\<close> is the length of the old index
  (1 for an empty index) and its \<open>order\<close> is one more than the largest of 0 and the
  \<open>order\<close>s of the old descriptors. When the old index ends in a descriptor and every
  descriptor carries its position as \<open>id\<close>, that \<open>id\<close> is the largest populated \<open>id\<close> plus 1.
\<close>

theorem create_map_descriptor:
  assumes "readMapInfos fh fs = Inr infos" and "create_map fh args fs = (res, fs')"
    and "\<not> isError res"
  shows "\<exists>mi. readMapInfos fh fs' = Inr (infos @ [Some mi])
          \<and> RPGMapInfo.id mi = max 1 (length infos)
          \<and> order mi = Max (insert 0 (order ` {m. Some m \<in> set infos})) + 1
          \<and> (infos \<noteq> [] \<and> last infos \<noteq> None
               \<and> (\<forall>k < length infos. \<forall>m. infos ! k = Some m \<longrightarrow> RPGMapInfo.id m = k)
             \<longrightarrow> RPGMapInfo.id mi = spec_max_populated_id infos + 1)"
proof (intro exI conjI impI)
  show "readMapInfos fh fs' = Inr (infos @ [Some (newMapInfo args infos)])"
    using create_map_result(1)[OF assms] .
  show "RPGMapInfo.id (newMapInfo args infos) = max 1 (length infos)"
    by (rule newMapInfo_fields)
  show "order (newMapInfo args infos) = Max (insert 0 (order ` {m. Some m \<in> set infos})) + 1"
    by (rule newMapInfo_fields)
  assume "infos \<noteq> [] \<and> last infos \<noteq> None
               \<and> (\<forall>k < length infos. \<forall>m. infos ! k = Some m \<longrightarrow> RPGMapInfo.id m = k)"
  then show "RPGMapInfo.id (newMapInfo args infos) = spec_max_populated_id infos + 1"
    using nextMapId_spec[of infos] by (simp add: newMapInfo_def)
qed

text \<open>
  C7 (the cells of a new map). The \<open>data\<close> array of a default map of width \<open>w\<close> and height
  \<open>h\<close> has \<open>w * h * 6\<close> entries, all 0, and after a successful \<open>create_map\<close> the body file of
  the new map holds such an array for the width and height asked for.
\<close>

theorem create_map_cells:
  "length (RPGMap.data (createDefaultMap w h)) = w * h * 6
   \<and> (\<forall>c \<in> set (RPGMap.data (createDefaultMap w h)). c = 0)
   \<and> (readMapInfos fh fs = Inr infos \<and> create_map fh args fs = (res, fs') \<and> \<not> isError res
      \<longrightarrow> (\<exists>body. readJson fh (''data/'' @ mapFilename (nextMapId infos)) fs' = Inr (MapDoc body)
            \<and> length (RPGMap.data body) = createMapArgs.width args * createMapArgs.height args * 6
            \<and> (\<forall>c \<in> set (RPGMap.data body). c = 0)))"
proof (intro conjI impI)
  show "length (RPGMap.data (createDefaultMap w h)) = w * h * 6"
    by (simp add: createDefaultMap_def Let_def)
  show "\<forall>c \<in> set (RPGMap.data (createDefaultMap w h)). c = 0"
    by (simp add: createDefaultMap_def Let_def)
  assume "readMapInfos fh fs = Inr infos \<and> create_map fh args fs = (res, fs') \<and> \<not> isError res"
  then have "readJson fh (''data/'' @ mapFilename (nextMapId infos)) fs' = Inr (MapDoc (newMapData args))"
    using create_map_result(2)[of fh fs infos args res fs'] by blast
  then show "\<exists>body. readJson fh (''data/'' @ mapFilename (nextMapId infos)) fs' = Inr (MapDoc body)
            \<and> length (RPGMap.data body) = createMapArgs.width args * createMapArgs.height args * 6
            \<and> (\<forall>c \<in> set (RPGMap.data body). c = 0)"
    by (intro exI[of _ "newMapData args"]) (simp add: newMapData_cells del: append.simps)
qed


lemma demo_mapFilename: "mapFilename 4 = ''Map004.json''" "mapFilename 3 = ''Map003.json''"
  by (simp_all add: mapFilename_def padStart_def decimal.simps digit_char_def
        eval_nat_numeral)

lemma demo_nextMapId: "nextMapId demo_map_index = 4"
  by (simp add: nextMapId_eq demo_map_index_def)

lemma demo_create_map_ok:
  "\<not> isError (fst (create_map demo_handler demo_map_args demo_project))"
  by (simp add: create_map_def writeMap_def demo_nextMapId demo_mapFilename bumpVersion_def
        systemFile_def success_def caught_def read_defs demo_project_def demo_handler_def
        fh_defs)

lemma demo_read_index: "readMapInfos demo_handler demo_project = Inr demo_map_index"
  by (simp add: read_defs demo_project_def demo_handler_def fh_defs)

text \<open>
  The claim as it stands fails on an index that ends in an absence-marker: on the index
  \<open>[null, 1, 2, null]\<close> the new descriptor gets the \<open>id\<close> 4, the length of the index, while
  the largest populated \<open>id\<close> plus 1 is 3.
\<close>

theorem create_map_id_counterexample:
  "\<not> isError (fst (create_map demo_handler demo_map_args demo_project))
   \<and> readMapInfos demo_handler (snd (create_map demo_handler demo_map_args demo_project))
       = Inr (demo_map_index @ [Some (newMapInfo demo_map_args demo_map_index)])
   \<and> last demo_map_index = None
   \<and> RPGMapInfo.id (newMapInfo demo_map_args demo_map_index) = 4
   \<and> spec_max_populated_id demo_map_index + 1 = 3
   \<and> RPGMapInfo.id (newMapInfo demo_map_args demo_map_index)
       \<noteq> spec_max_populated_id demo_map_index + 1"
proof -
  let ?c = "create_map demo_handler demo_map_args demo_project"
  have e: "?c = (fst ?c, snd ?c)" by simp
  have a: "readMapInfos demo_handler (snd ?c)
       = Inr (demo_map_index @ [Some (newMapInfo demo_map_args demo_map_index)])"
    using create_map_result(1)[OF demo_read_index e demo_create_map_ok] .
  have b: "RPGMapInfo.id (newMapInfo demo_map_args demo_map_index) = 4"
    by (simp add: newMapInfo_fields demo_map_index_def)
  have c: "spec_max_populated_id demo_map_index + 1 = 3"
    by (simp add: spec_max_populated_id_def demo_map_index_def demo_map_info_def)
  have d: "last demo_map_index = None"
    by (simp add: demo_map_index_def)
  have f: "RPGMapInfo.id (newMapInfo demo_map_args demo_map_index)
       \<noteq> spec_max_populated_id demo_map_index + 1"
    unfolding b c by simp
  show ?thesis
    by (intro conjI demo_create_map_ok a d b c f)
qed

theorem create_map_cells_witness:
  "length (RPGMap.data (createDefaultMap 20 15)) = 1800
   \<and> readMapInfos demo_handler demo_project = Inr demo_map_index
   \<and> \<not> isError (fst (create_map demo_handler demo_map_args demo_project))
   \<and> (\<exists>body. readJson demo_handler ''data/Map004.json''
                (snd (create_map demo_handler demo_map_args demo_project)) = Inr (MapDoc body)
          \<and> RPGMap.data body = replicate 1800 0)"
proof -
  let ?c = "create_map demo_handler demo_map_args demo_project"
  note t = create_map_cells[where w = 20 and h = 15 and fh = demo_handler and fs = demo_project
      and infos = demo_map_index and args = demo_map_args and res = "fst ?c" and fs' = "snd ?c"]
  have e: "?c = (fst ?c, snd ?c)" by simp
  have wh: "createMapArgs.width demo_map_args * createMapArgs.height demo_map_args * 6 = 1800"
    by (simp add: demo_map_args_def)
  from t[THEN conjunct1] have a: "length (RPGMap.data (createDefaultMap 20 15)) = 1800"
    by simp
  from t[THEN conjunct2, THEN conjunct2] demo_read_index e demo_create_map_ok
  obtain body where
    b: "readJson demo_handler (''data/'' @ mapFilename (nextMapId demo_map_index)) (snd ?c)
          = Inr (MapDoc body)"
    and l: "length (RPGMap.data body)
          = createMapArgs.width demo_map_args * createMapArgs.height demo_map_args * 6"
    and z: "\<forall>c \<in> set (RPGMap.data body). c = 0"
    by blast
  from l z have "RPGMap.data body = replicate 1800 0"
    unfolding wh by (intro replicate_eqI) auto
  moreover from b have "readJson demo_handler ''data/Map004.json'' (snd ?c) = Inr (MapDoc body)"
    unfolding demo_nextMapId demo_mapFilename by simp
  ultimately have "\<exists>body. readJson demo_handler ''data/Map004.json'' (snd ?c) = Inr (MapDoc body)
          \<and> RPGMap.data body = replicate 1800 0"
    by blast
  then show ?thesis
    by (intro conjI a demo_read_index demo_create_map_ok)
qed

theorem create_map_descriptor_witness:
  "readMapInfos demo_handler demo_project_full_index = Inr demo_full_index
   \<and> \<not> isError (fst (create_map demo_handler demo_map_args demo_project_full_index))
   \<and> demo_full_index \<noteq> [] \<and> last demo_full_index \<noteq> None
   \<and> (\<exists>mi. readMapInfos demo_handler
               (snd (create_map demo_handler demo_map_args demo_project_full_index))
             = Inr (demo_full_index @ [Some mi])
          \<and> RPGMapInfo.id mi = 3 \<and> order mi = 3
          \<and> RPGMapInfo.id mi = spec_max_populated_id demo_full_index + 1)"
proof -
  let ?c = "create_map demo_handler demo_map_args demo_project_full_index"
  have r: "readMapInfos demo_handler demo_project_full_index = Inr demo_full_index"
    by (simp add: read_defs demo_project_full_index_def demo_project_def demo_handler_def fh_defs)
  have nx: "nextMapId demo_full_index = 3"
    by (simp add: nextMapId_eq demo_full_index_def)
  have ok: "\<not> isError (fst ?c)"
    by (simp add: create_map_def writeMap_def nx demo_mapFilename bumpVersion_def systemFile_def
        success_def caught_def read_defs demo_project_full_index_def demo_project_def
        demo_handler_def fh_defs)
  have e: "?c = (fst ?c, snd ?c)" by simp
  have h1: "demo_full_index \<noteq> []" and h2: "last demo_full_index \<noteq> None"
    by (simp_all add: demo_full_index_def)
  have h3: "\<forall>k < length demo_full_index. \<forall>m. demo_full_index ! k = Some m \<longrightarrow> RPGMapInfo.id m = k"
    by (auto simp: less_Suc_eq demo_map_info_def demo_full_index_def)
  have len: "max 1 (length demo_full_index) = 3"
    by (simp add: demo_full_index_def)
  have mo: "Max (insert 0 (order ` {m. Some m \<in> set demo_full_index})) = 2"
    unfolding maxOrder_eq[symmetric]
    by (simp add: maxOrder_def demo_map_info_def demo_full_index_def)
  from create_map_descriptor[OF r e ok] h1 h2 h3 obtain mi where
    "readMapInfos demo_handler (snd ?c) = Inr (demo_full_index @ [Some mi])"
    "RPGMapInfo.id mi = max 1 (length demo_full_index)"
    "order mi = Max (insert 0 (order ` {m. Some m \<in> set demo_full_index})) + 1"
    "RPGMapInfo.id mi = spec_max_populated_id demo_full_index + 1"
    by blast
  then have "readMapInfos demo_handler (snd ?c) = Inr (demo_full_index @ [Some mi])
          \<and> RPGMapInfo.id mi = 3 \<and> order mi = 3
          \<and> RPGMapInfo.id mi = spec_max_populated_id demo_full_index + 1"
    unfolding mo len by simp
  then have "\<exists>mi. readMapInfos demo_handler (snd ?c) = Inr (demo_full_index @ [Some mi])
          \<and> RPGMapInfo.id mi = 3 \<and> order mi = 3
          \<and> RPGMapInfo.id mi = spec_max_populated_id demo_full_index + 1"
    by blast
  then show ?thesis
    by (intro conjI r ok h1 h2)
qed


section \<open>Installing a plugin\<close>


lemmas regex_defs = MZ_HEADER_REGEX_def lit_def atom_matches_def is_space_def canonicalize_def
  newline_def

text \<open>The generated header is one the pattern detects, whatever follows it.\<close>

lemma header_detected:
  "regex_test True MZ_HEADER_REGEX (createPluginHeader d a @ rest)"
  by (simp add: createPluginHeader_def regex_defs)

lemma finalCode_detected: "regex_test True MZ_HEADER_REGEX (finalCode args)"
  using header_detected[of "installPluginArgs.description args" "author args"]
  by (simp add: finalCode_def del: append_assoc)

lemma finalCode_idem:
  "finalCode (args\<lparr>installPluginArgs.code := finalCode args\<rparr>) = finalCode args"
  using finalCode_detected[of args] by (simp add: finalCode_def)










section \<open>The version counter over requests\<close>


































end
